theory Spec2Isabelle
  imports Complex_Main "HOL-Library.Word"
begin

unbundle bit_operations_syntax

section \<open>Annotation values and their normalisation\<close>

text \<open>
  The rigger reads loosely typed annotations from \<open>userData\<close>.  A tag arrives as a number
  or as a string; a collision group or mask arrives as a number or as an array of numbers.
  An absent annotation (\<open>undefined\<close>) is \<open>None\<close> of the option type around these values.
  Numbers are modelled as integers where the code uses them as integers (tags, bit flags)
  and as reals elsewhere; rounding of IEEE doubles is not modelled.
\<close>

datatype tag_value = TNum int | TStr string

datatype mask_value = MNum int | MArr "int list"

datatype Type =
    Nothing | BoxCollider | SphereCollider | CompoundCollider
  | LockConstraint | HingeConstraint | PointConstraint | DistanceConstraint
  | SyncLocRot | Cable | Custom

text \<open>The numeric value of each member of the TypeScript enum \<open>Type\<close>.\<close>

fun Type_code :: "Type \<Rightarrow> int" where
  "Type_code Nothing = 0"
| "Type_code BoxCollider = 1"
| "Type_code SphereCollider = 2"
| "Type_code CompoundCollider = 3"
| "Type_code LockConstraint = 4"
| "Type_code HingeConstraint = 5"
| "Type_code PointConstraint = 6"
| "Type_code DistanceConstraint = 7"
| "Type_code SyncLocRot = 8"
| "Type_code Cable = 9"
| "Type_code Custom = 10"

text \<open>
  The table \<open>TypeAsString\<close>; a key that is not in the table reads as \<open>undefined\<close>
  (keys inherited from the object prototype are not modelled).
\<close>

definition TypeAsString :: "string \<Rightarrow> Type option" where
  "TypeAsString k =
     (if k = ''x'' then Some Nothing
      else if k = ''box'' then Some BoxCollider
      else if k = ''sphere'' then Some SphereCollider
      else if k = ''compound'' then Some CompoundCollider
      else if k = ''lock'' then Some LockConstraint
      else if k = ''hinge'' then Some HingeConstraint
      else if k = ''point'' then Some PointConstraint
      else if k = ''dist'' then Some DistanceConstraint
      else if k = ''sync'' then Some SyncLocRot
      else if k = ''tube'' then Some Cable
      else if k = ''custom'' then Some Custom
      else None)"

text \<open>
  The callback of \<open>flags.reduce\<close> in \<open>arrayToBitmask\<close>: \<open>mask | (bit << idx)\<close>.  Both
  operators work on 32-bit integers and the shift count is taken modulo 32.
\<close>

fun reduce_flags :: "32 word \<Rightarrow> nat \<Rightarrow> int list \<Rightarrow> 32 word" where
  "reduce_flags m idx [] = m"
| "reduce_flags m idx (b # flags) =
     reduce_flags (m OR push_bit (idx mod 32) (word_of_int b)) (Suc idx) flags"

definition arrayToBitmask :: "mask_value \<Rightarrow> int list option \<Rightarrow> int" where
  "arrayToBitmask flags flagsArray =
     (let flags' = (case flags of
                      MNum _ \<Rightarrow> (case flagsArray of None \<Rightarrow> [] | Some a \<Rightarrow> a)
                    | MArr a \<Rightarrow> a)
      in if length flags' = 0 then 0 else sint (reduce_flags 0 0 flags'))"

text \<open>JavaScript truthiness of an annotation value: \<open>0\<close> is falsy, every array is truthy.\<close>

fun truthy :: "mask_value \<Rightarrow> bool" where
  "truthy (MNum n) = (n \<noteq> 0)"
| "truthy (MArr a) = True"

text \<open>
  The three normalisation steps at the head of the first traversal of \<open>rigScene\<close>: a string
  tag is replaced by its table entry, a truthy group or mask by \<open>arrayToBitmask\<close> of it and
  of the companion \<open>_array\<close> annotation.
\<close>

definition normalize_type :: "tag_value option \<Rightarrow> tag_value option" where
  "normalize_type t =
     (case t of
        Some (TStr k) \<Rightarrow> map_option (\<lambda>ty. TNum (Type_code ty)) (TypeAsString k)
      | _ \<Rightarrow> t)"

definition normalize_mask :: "mask_value option \<Rightarrow> int list option \<Rightarrow> mask_value option" where
  "normalize_mask v arr =
     (case v of
        None \<Rightarrow> None
      | Some x \<Rightarrow> if truthy x then Some (MNum (arrayToBitmask x arr)) else Some x)"

text \<open>The default \<open>v ?? 1\<close>: only \<open>undefined\<close> is replaced.\<close>

definition nullish_one :: "mask_value option \<Rightarrow> mask_value" where
  "nullish_one v = (case v of None \<Rightarrow> MNum 1 | Some x \<Rightarrow> x)"

section \<open>Vectors and quaternions\<close>

text \<open>
  \<open>Vector3\<close>/\<open>Vec3\<close> and \<open>Quaternion\<close> of the two libraries, over the reals.  The
  operations below follow the formulas of three.js (\<open>sub\<close>, \<open>add\<close>, \<open>distanceTo\<close>,
  \<open>normalize\<close>, \<open>applyQuaternion\<close>, \<open>multiply\<close>, \<open>invert\<close>) and of cannon-es
  (\<open>conjugate\<close>, \<open>vmult\<close>).  \<open>invert\<close> of three.js is the conjugate: it takes the
  quaternion to have unit length.
\<close>

datatype vec3 = Vec3 (vx: real) (vy: real) (vz: real)

datatype quat = Quat (qx: real) (qy: real) (qz: real) (qw: real)

definition vsub :: "vec3 \<Rightarrow> vec3 \<Rightarrow> vec3" where
  "vsub a b = Vec3 (vx a - vx b) (vy a - vy b) (vz a - vz b)"

definition vadd :: "vec3 \<Rightarrow> vec3 \<Rightarrow> vec3" where
  "vadd a b = Vec3 (vx a + vx b) (vy a + vy b) (vz a + vz b)"

definition distanceTo :: "vec3 \<Rightarrow> vec3 \<Rightarrow> real" where
  "distanceTo a b =
     sqrt ((vx a - vx b) * (vx a - vx b) + (vy a - vy b) * (vy a - vy b)
           + (vz a - vz b) * (vz a - vz b))"

definition vlength :: "vec3 \<Rightarrow> real" where
  "vlength a = sqrt (vx a * vx a + vy a * vy a + vz a * vz a)"

text \<open>\<open>normalize\<close> divides by \<open>length() || 1\<close>.\<close>

definition normalize_vec :: "vec3 \<Rightarrow> vec3" where
  "normalize_vec a =
     (let l = (if vlength a = 0 then 1 else vlength a)
      in Vec3 (vx a / l) (vy a / l) (vz a / l))"

definition qinvert :: "quat \<Rightarrow> quat" where
  "qinvert q = Quat (- qx q) (- qy q) (- qz q) (qw q)"

definition qmultiply :: "quat \<Rightarrow> quat \<Rightarrow> quat" where
  "qmultiply a b =
     Quat (qx a * qw b + qw a * qx b + qy a * qz b - qz a * qy b)
          (qy a * qw b + qw a * qy b + qz a * qx b - qx a * qz b)
          (qz a * qw b + qw a * qz b + qx a * qy b - qy a * qx b)
          (qw a * qw b - qx a * qx b - qy a * qy b - qz a * qz b)"

definition applyQuaternion :: "vec3 \<Rightarrow> quat \<Rightarrow> vec3" where
  "applyQuaternion v q =
     (let tx = 2 * (qy q * vz v - qz q * vy v);
          ty = 2 * (qz q * vx v - qx q * vz v);
          tz = 2 * (qx q * vy v - qy q * vx v)
      in Vec3 (vx v + qw q * tx + qy q * tz - qz q * ty)
              (vy v + qw q * ty + qz q * tx - qx q * tz)
              (vz v + qw q * tz + qx q * ty - qy q * tx))"

text \<open>cannon-es \<open>Quaternion.vmult\<close>: the product \<open>q v q*\<close>.\<close>

definition vmult :: "quat \<Rightarrow> vec3 \<Rightarrow> vec3" where
  "vmult q v =
     (let ix = qw q * vx v + qy q * vz v - qz q * vy v;
          iy = qw q * vy v + qz q * vx v - qx q * vz v;
          iz = qw q * vz v + qx q * vy v - qy q * vx v;
          iw = - qx q * vx v - qy q * vy v - qz q * vz v
      in Vec3 (ix * qw q + iw * - qx q + iy * - qz q - iz * - qy q)
              (iy * qw q + iw * - qy q + iz * - qx q - ix * - qz q)
              (iz * qw q + iw * - qz q + ix * - qy q - iy * - qx q))"


section \<open>The libraries the rigger calls\<close>

text \<open>
  three.js' \<open>Matrix4\<close> is not part of the repository.  Its type is a parameter \<open>'m\<close> and the
  operations the rigger calls on it are the fields of a record that every function below
  receives: \<open>compose\<close>, \<open>invert\<close>, \<open>premultiply\<close> (\<open>premultiply a b\<close> is
  \<open>a.premultiply(b)\<close>), \<open>decompose\<close> to position, quaternion and scale,
  \<open>setFromMatrixPosition\<close> and \<open>applyMatrix4\<close> (\<open>applyMatrix4 v m\<close> is
  \<open>v.applyMatrix4(m)\<close>).  \<open>tubeChain\<close> stands for the cable rig of the package
  threejs-cannones-tube: the positions of the bodies of its chain, the head first and the
  tail last, for a rig of a given length, position and look-at target.
\<close>

record 'm lib =
  compose :: "vec3 \<Rightarrow> quat \<Rightarrow> vec3 \<Rightarrow> 'm"
  invert :: "'m \<Rightarrow> 'm"
  premultiply :: "'m \<Rightarrow> 'm \<Rightarrow> 'm"
  decompose :: "'m \<Rightarrow> vec3 \<times> quat \<times> vec3"
  setFromMatrixPosition :: "'m \<Rightarrow> vec3"
  applyMatrix4 :: "vec3 \<Rightarrow> 'm \<Rightarrow> vec3"
  tubeChain :: "real \<Rightarrow> vec3 \<Rightarrow> vec3 option \<Rightarrow> vec3 \<times> vec3 list"

section \<open>Scene nodes\<close>

text \<open>
  \<open>threejscannones_A\<close>, \<open>threejscannones_B\<close> and \<open>threejscannones_syncSource\<close> hold what the
  code reads of the annotation, \<open>o.userData.threejscannones_A?.name\<close>: the name of the
  referenced node, \<open>None\<close> when the annotation or its name is absent.
\<close>

record userData =
  name :: "string option"
  threejscannones_type :: "tag_value option"
  threejscannones_cgroup :: "mask_value option"
  threejscannones_cgroup_array :: "int list option"
  threejscannones_cwith :: "mask_value option"
  threejscannones_cwith_array :: "int list option"
  threejscannones_mass :: "real option"
  threejscannones_A :: "string option"
  threejscannones_B :: "string option"
  threejscannones_syncSource :: "string option"
  threejscannones_customId :: "string option"

text \<open>
  An \<open>Object3D\<close> without its children.  \<open>oid\<close> is the identity of the object (the key of a
  JavaScript \<open>Map\<close>), \<open>matrixWorld\<close> its up-to-date world matrix, \<open>parent\<close> the world
  matrix of its parent, \<open>None\<close> for an object without a parent.
\<close>

record 'm object_data =
  oid :: nat
  obj_name :: string
  userData :: userData
  visible :: bool
  obj_position :: vec3
  obj_quaternion :: quat
  scale :: vec3
  matrixWorld :: 'm
  parent :: "'m option"

datatype 'm Object3D = Object3D (data: "'m object_data") (children: "'m Object3D list")

text \<open>\<open>traverse\<close> calls the callback on the object, then on each child's subtree in order.\<close>

fun traverse :: "'m Object3D \<Rightarrow> 'm Object3D list" where
  "traverse (Object3D d cs) = Object3D d cs # concat (map traverse cs)"

definition getWorldPosition :: "'m lib \<Rightarrow> 'm object_data \<Rightarrow> vec3" where
  "getWorldPosition L d = setFromMatrixPosition L (matrixWorld d)"

definition getWorldQuaternion :: "'m lib \<Rightarrow> 'm object_data \<Rightarrow> quat" where
  "getWorldQuaternion L d = (case decompose L (matrixWorld d) of (p, q, s) \<Rightarrow> q)"

definition getWorldScale :: "'m lib \<Rightarrow> 'm object_data \<Rightarrow> vec3" where
  "getWorldScale L d = (case decompose L (matrixWorld d) of (p, q, s) \<Rightarrow> s)"

definition localToWorld :: "'m lib \<Rightarrow> 'm object_data \<Rightarrow> vec3 \<Rightarrow> vec3" where
  "localToWorld L d v = applyMatrix4 L v (matrixWorld d)"

section \<open>Bodies, the physics world and the rig session\<close>

datatype shape = Box vec3 | Sphere real

text \<open>
  A cannon-es \<open>Body\<close>: its shapes with their offsets and orientations, its mass, the
  collision group and mask handed to its constructor, and its pose.
\<close>

record body =
  shapes :: "(shape \<times> vec3 \<times> quat) list"
  mass :: real
  collisionFilterGroup :: mask_value
  collisionFilterMask :: mask_value
  position :: vec3
  quaternion :: quat

definition conjugate :: "quat \<Rightarrow> quat" where
  "conjugate q = Quat (- qx q) (- qy q) (- qz q) (qw q)"

definition pointToLocalFrame :: "body \<Rightarrow> vec3 \<Rightarrow> vec3" where
  "pointToLocalFrame b worldPoint =
     vmult (conjugate (quaternion b)) (vsub worldPoint (position b))"

definition vectorToLocalFrame :: "body \<Rightarrow> vec3 \<Rightarrow> vec3" where
  "vectorToLocalFrame b worldVector = vmult (conjugate (quaternion b)) worldVector"

definition addShape :: "shape \<Rightarrow> vec3 \<Rightarrow> quat \<Rightarrow> body \<Rightarrow> body" where
  "addShape sh off ori b = b\<lparr>shapes := shapes b @ [(sh, off, ori)]\<rparr>"

text \<open>
  The engine's constraint objects, by the bodies (references) they join.  \<open>TubeJoint\<close> is a
  joint of the chain of a cable rig.  A constraint object is a pair of its identity and its
  parameters.
\<close>

datatype cannon_constraint =
    NewDistanceConstraint nat nat real
  | NewLockConstraint nat nat
  | NewHingeConstraint nat nat vec3 vec3 vec3 vec3
  | NewPointToPointConstraint nat vec3 nat vec3
  | TubeJoint nat nat

type_synonym constraint_ref = "nat \<times> cannon_constraint"

record CannonTubeRig =
  tube_length :: real
  tube_position :: vec3
  tube_lookAt :: "vec3 option"
  head :: nat
  tail :: nat
  tube_bodies :: "nat list"
  tube_constraints :: "constraint_ref list"

record 'm sync =
  sync_obj :: "'m object_data"
  sync_body :: nat
  offsetPos :: vec3
  offsetQuat :: quat
  hasInit :: bool

record 'm cable_constraint =
  cable_obj :: "'m object_data"
  cable :: CannonTubeRig
  lockToA :: "constraint_ref option"
  lockToB :: "constraint_ref option"

text \<open>The three classes of objects kept in \<open>this.constraints\<close>.\<close>

datatype 'm tracked =
    ThreeJsCannonEsConstraint "'m object_data" constraint_ref
  | SyncConstraint "'m sync"
  | CableConstraint "'m cable_constraint"

text \<open>An object made by a host factory, by its identity.\<close>

datatype IConstraint = HostObject nat

record 'm CustomContraintConfig =
  cfg_obj :: "'m object_data"
  collisionGroup :: mask_value
  collisionMask :: mask_value
  cfg_A :: "nat option"
  cfg_B :: "nat option"

datatype error = Error string | TypeError

text \<open>
  The state the rigger works on: the physics world (the lists of its bodies and
  constraints), the bodies by reference, a counter of fresh references, the four fields of
  \<open>ThreeJsCannonEsSceneRigger\<close>, the four scratch values of the module and the warnings
  written to the console.  \<open>obj2bod\<close> keeps the insertion order of the \<open>Map\<close>;
  \<open>customConstraints\<close> is keyed by \<open>userData.name\<close>, which may be \<open>undefined\<close>.
\<close>

record 'm rigger =
  world_bodies :: "nat list"
  world_constraints :: "constraint_ref list"
  heap :: "nat \<Rightarrow> body"
  next_ref :: nat
  obj2bod :: "('m object_data \<times> nat) list"
  constraints :: "'m tracked list"
  customId2ConstraintFactory :: "string \<Rightarrow> ('m CustomContraintConfig \<Rightarrow> IConstraint) option"
  customConstraints :: "string option \<Rightarrow> IConstraint option"
  vec :: vec3
  vec2 :: vec3
  rot :: quat
  rot2 :: quat
  warnings :: "string list"

text \<open>A body as \<open>new Body()\<close> of cannon-es makes it.\<close>

definition newBody :: "body" where
  "newBody = \<lparr>shapes = [], mass = 0, collisionFilterGroup = MNum 1, collisionFilterMask = MNum (- 1),
              position = Vec3 0 0 0, quaternion = Quat 0 0 0 1\<rparr>"

text \<open>
  A new rigger on a world that holds the given bodies and constraints, the scratch values
  as they are when the module is loaded.  \<open>enable\<close> and \<open>disable\<close> of the constraints,
  materials and the step of the physics engine are left out of the model.
\<close>

definition newRigger :: "nat list \<Rightarrow> constraint_ref list \<Rightarrow> (nat \<Rightarrow> body) \<Rightarrow> nat \<Rightarrow> 'm rigger" where
  "newRigger bs cs h n =
     \<lparr>world_bodies = bs, world_constraints = cs, heap = h, next_ref = n, obj2bod = [],
      constraints = [], customId2ConstraintFactory = (\<lambda>k. None),
      customConstraints = (\<lambda>k. None),
      vec = Vec3 0 0 0, vec2 = Vec3 0 0 0, rot = Quat 0 0 0 1, rot2 = Quat 0 0 0 1,
      warnings = []\<rparr>"

text \<open>The world's \<open>addBody\<close>, \<open>removeBody\<close>, \<open>addConstraint\<close> and \<open>removeConstraint\<close>.\<close>

definition addBody :: "nat \<Rightarrow> 'm rigger \<Rightarrow> 'm rigger" where
  "addBody r s =
     s\<lparr>world_bodies := (if r \<in> set (world_bodies s) then world_bodies s
                         else world_bodies s @ [r])\<rparr>"

definition removeBody :: "nat \<Rightarrow> 'm rigger \<Rightarrow> 'm rigger" where
  "removeBody r s = s\<lparr>world_bodies := remove1 r (world_bodies s)\<rparr>"

definition addConstraint :: "constraint_ref \<Rightarrow> 'm rigger \<Rightarrow> 'm rigger" where
  "addConstraint c s = s\<lparr>world_constraints := world_constraints s @ [c]\<rparr>"

definition removeConstraint :: "constraint_ref \<Rightarrow> 'm rigger \<Rightarrow> 'm rigger" where
  "removeConstraint c s = s\<lparr>world_constraints := remove1 c (world_constraints s)\<rparr>"

definition registerCustomConstraint ::
  "string \<Rightarrow> ('m CustomContraintConfig \<Rightarrow> IConstraint) \<Rightarrow> 'm rigger \<Rightarrow> 'm rigger" where
  "registerCustomConstraint k creator s =
     s\<lparr>customId2ConstraintFactory := (customId2ConstraintFactory s)(k \<mapsto> creator)\<rparr>"

definition getCustomConstraint :: "'m rigger \<Rightarrow> string \<Rightarrow> IConstraint option" where
  "getCustomConstraint s nm = customConstraints s (Some nm)"

text \<open>
  \<open>getBodyByName\<close> walks the entries of \<open>obj2bod\<close> in insertion order and compares
  \<open>obj.userData.name === name\<close>; both sides may be \<open>undefined\<close>.
\<close>

fun find_body :: "('m object_data \<times> nat) list \<Rightarrow> string option \<Rightarrow> nat option" where
  "find_body [] nm = None"
| "find_body ((d, b) # rest) nm =
     (if name (userData d) = nm then Some b else find_body rest nm)"

definition getBodyByName :: "'m rigger \<Rightarrow> string option \<Rightarrow> nat option" where
  "getBodyByName s nm = find_body (obj2bod s) nm"

text \<open>\<open>Map.set\<close>: the value of a key that is present is replaced in place, a new key is appended.\<close>

fun map_set ::
  "'m object_data \<Rightarrow> nat \<Rightarrow> ('m object_data \<times> nat) list \<Rightarrow> ('m object_data \<times> nat) list" where
  "map_set d b [] = [(d, b)]"
| "map_set d b ((d', b') # rest) =
     (if oid d' = oid d then (d, b) # rest else (d', b') # map_set d b rest)"

section \<open>First traversal: colliders\<close>

definition createCollider ::
  "'m lib \<Rightarrow> 'm rigger \<Rightarrow> shape option \<Rightarrow> 'm object_data \<Rightarrow> 'm rigger \<times> 'm object_data \<times> nat" where
  "createCollider L s sh d =
     (let d1 = d\<lparr>visible := False\<rparr>;
          group = nullish_one (threejscannones_cgroup (userData d1));
          msk = nullish_one (threejscannones_cwith (userData d1));
          b = \<lparr>shapes = (case sh of None \<Rightarrow> [] | Some x \<Rightarrow> [(x, Vec3 0 0 0, Quat 0 0 0 1)]),
               mass = (case threejscannones_mass (userData d1) of None \<Rightarrow> 0 | Some m \<Rightarrow> m),
               collisionFilterGroup = group,
               collisionFilterMask = msk,
               position = Vec3 0 0 0,
               quaternion = Quat 0 0 0 1\<rparr>;
          pos = getWorldPosition L d1;
          b1 = b\<lparr>position := Vec3 (vx pos) (vy pos) (vz pos)\<rparr>;
          rt = getWorldQuaternion L d1;
          b2 = b1\<lparr>quaternion := Quat (qx rt) (qy rt) (qz rt) (qw rt)\<rparr>;
          r = next_ref s;
          s1 = s\<lparr>heap := (heap s)(r := b2), next_ref := Suc r\<rparr>;
          s2 = addBody r s1;
          s3 = s2\<lparr>obj2bod := map_set d1 r (obj2bod s2)\<rparr>
      in (s3, d1, r))"

text \<open>The body of the loop of \<open>addCompoundShapes\<close>: the sub-shape a child contributes.\<close>

definition compound_shape :: "'m lib \<Rightarrow> vec3 \<Rightarrow> quat \<Rightarrow> 'm object_data \<Rightarrow> shape \<times> vec3 \<times> quat" where
  "compound_shape L compoundWorldPos invCompoundQuat mesh =
     (let childWorldPos = getWorldPosition L mesh;
          childWorldQuat = getWorldQuaternion L mesh;
          childScale = getWorldScale L mesh;
          localOffset = applyQuaternion (vsub childWorldPos compoundWorldPos) invCompoundQuat;
          localQuat = qmultiply invCompoundQuat childWorldQuat;
          offset = Vec3 (vx localOffset) (vy localOffset) (vz localOffset);
          orientation = Quat (qx localQuat) (qy localQuat) (qz localQuat) (qw localQuat);
          halfExtents = Vec3 (vx childScale) (vy childScale) (vz childScale)
      in (Box halfExtents, offset, orientation))"

definition addCompoundShapes :: "'m lib \<Rightarrow> 'm rigger \<Rightarrow> nat \<Rightarrow> 'm Object3D \<Rightarrow> 'm rigger" where
  "addCompoundShapes L s r compound =
     (let boxes = children compound;
          compoundWorldPos = getWorldPosition L (data compound);
          compoundWorldQuat = getWorldQuaternion L (data compound);
          invCompoundQuat = qinvert compoundWorldQuat;
          b1 = fold (\<lambda>mesh b.
                       case compound_shape L compoundWorldPos invCompoundQuat (data mesh) of
                         (sh, off, ori) \<Rightarrow> addShape sh off ori b)
                    boxes (heap s r);
          b2 = b1\<lparr>position := Vec3 (vx compoundWorldPos) (vy compoundWorldPos) (vz compoundWorldPos)\<rparr>;
          b3 = b2\<lparr>quaternion := Quat (qx compoundWorldQuat) (qy compoundWorldQuat)
                                     (qz compoundWorldQuat) (qw compoundWorldQuat)\<rparr>
      in s\<lparr>heap := (heap s)(r := b3)\<rparr>)"

text \<open>
  \<open>o.userData.threejscannones_type == Type.X\<close> on the normalised tag, which is a number or
  \<open>undefined\<close>.
\<close>

definition type_eq :: "tag_value option \<Rightarrow> Type \<Rightarrow> bool" where
  "type_eq t k = (t = Some (TNum (Type_code k)))"

text \<open>The callback of the first traversal; it returns the object with its annotations rewritten.\<close>

definition rig_body :: "'m lib \<Rightarrow> 'm rigger \<Rightarrow> 'm Object3D \<Rightarrow> 'm rigger \<times> 'm Object3D" where
  "rig_body L s ob =
     (let d = data ob;
          u = userData d;
          u1 = u\<lparr>threejscannones_type := normalize_type (threejscannones_type u)\<rparr>;
          u2 = u1\<lparr>threejscannones_cgroup :=
                    normalize_mask (threejscannones_cgroup u1) (threejscannones_cgroup_array u1)\<rparr>;
          u3 = u2\<lparr>threejscannones_cwith :=
                    normalize_mask (threejscannones_cwith u2) (threejscannones_cwith_array u2)\<rparr>;
          d1 = d\<lparr>userData := u3\<rparr>;
          t = threejscannones_type u3
      in if type_eq t BoxCollider then
           (case createCollider L s (Some (Box (Vec3 (vx (scale d1)) (vy (scale d1)) (vz (scale d1))))) d1 of
              (s1, d2, r) \<Rightarrow> (s1, Object3D d2 (children ob)))
         else if type_eq t SphereCollider then
           (case createCollider L s (Some (Sphere (vx (scale d1)))) d1 of
              (s1, d2, r) \<Rightarrow> (s1, Object3D d2 (children ob)))
         else if type_eq t CompoundCollider then
           (case createCollider L s None d1 of
              (s1, d2, r) \<Rightarrow>
                (addCompoundShapes L s1 r (Object3D d2 (children ob)), Object3D d2 (children ob)))
         else (s, Object3D d1 (children ob)))"

fun pass1 :: "'m lib \<Rightarrow> 'm rigger \<Rightarrow> 'm Object3D list \<Rightarrow> 'm rigger \<times> 'm Object3D list" where
  "pass1 L s [] = (s, [])"
| "pass1 L s (ob # obs) =
     (case rig_body L s ob of
        (s1, ob') \<Rightarrow> (case pass1 L s1 obs of (s2, obs') \<Rightarrow> (s2, ob' # obs')))"

section \<open>Second traversal: constraints\<close>

text \<open>
  The four joint builders.  Each reads a method or a field of both bodies (in the code
  itself for the point and the hinge joint, in the constructor of cannon-es for the
  distance and the lock joint), so an \<open>undefined\<close> body raises a \<open>TypeError\<close> before
  anything is changed.  A new constraint object takes a fresh reference.
\<close>

definition createDistanceConstraint ::
  "'m rigger \<Rightarrow> nat option \<Rightarrow> nat option \<Rightarrow> (error \<times> 'm rigger) + ('m rigger \<times> constraint_ref)" where
  "createDistanceConstraint s a b =
     (case (a, b) of
        (Some a', Some b') \<Rightarrow>
          (let c = (next_ref s,
                    NewDistanceConstraint a' b'
                      (distanceTo (position (heap s a')) (position (heap s b'))))
           in Inr (addConstraint c (s\<lparr>next_ref := Suc (next_ref s)\<rparr>), c))
      | _ \<Rightarrow> Inl (TypeError, s))"

definition createLockConstraint ::
  "'m rigger \<Rightarrow> nat option \<Rightarrow> nat option \<Rightarrow> (error \<times> 'm rigger) + ('m rigger \<times> constraint_ref)" where
  "createLockConstraint s a b =
     (case (a, b) of
        (Some a', Some b') \<Rightarrow>
          (let c = (next_ref s, NewLockConstraint a' b')
           in Inr (addConstraint c (s\<lparr>next_ref := Suc (next_ref s)\<rparr>), c))
      | _ \<Rightarrow> Inl (TypeError, s))"

definition createHingeConstraint ::
  "'m lib \<Rightarrow> 'm rigger \<Rightarrow> nat option \<Rightarrow> nat option \<Rightarrow> 'm object_data
     \<Rightarrow> (error \<times> 'm rigger) + ('m rigger \<times> constraint_ref)" where
  "createHingeConstraint L s a b d =
     (let pos = getWorldPosition L d;
          worldAxis = normalize_vec (applyQuaternion (Vec3 0 1 0) (getWorldQuaternion L d));
          pivot = Vec3 (vx pos) (vy pos) (vz pos);
          hingeAxis = Vec3 (vx worldAxis) (vy worldAxis) (vz worldAxis)
      in case (a, b) of
           (Some a', Some b') \<Rightarrow>
             (let pivotA = pointToLocalFrame (heap s a') pivot;
                  pivotB = pointToLocalFrame (heap s b') pivot;
                  axisA = vectorToLocalFrame (heap s a') hingeAxis;
                  axisB = vectorToLocalFrame (heap s b') hingeAxis;
                  c = (next_ref s, NewHingeConstraint a' b' pivotA pivotB axisA axisB)
              in Inr (addConstraint c (s\<lparr>next_ref := Suc (next_ref s)\<rparr>), c))
         | _ \<Rightarrow> Inl (TypeError, s))"

definition createPointConstraint ::
  "'m lib \<Rightarrow> 'm rigger \<Rightarrow> nat option \<Rightarrow> nat option \<Rightarrow> 'm object_data
     \<Rightarrow> (error \<times> 'm rigger) + ('m rigger \<times> constraint_ref)" where
  "createPointConstraint L s a b d =
     (let pos = getWorldPosition L d
      in case (a, b) of
           (Some a', Some b') \<Rightarrow>
             (let pivotA = pointToLocalFrame (heap s a') (Vec3 (vx pos) (vy pos) (vz pos));
                  pivotB = pointToLocalFrame (heap s b') (Vec3 (vx pos) (vy pos) (vz pos));
                  c = (next_ref s, NewPointToPointConstraint a' pivotA b' pivotB)
              in Inr (addConstraint c (s\<lparr>next_ref := Suc (next_ref s)\<rparr>), c))
         | _ \<Rightarrow> Inl (TypeError, s))"

definition createSyncBetween :: "'m rigger \<Rightarrow> 'm object_data \<Rightarrow> nat option \<Rightarrow> 'm rigger" where
  "createSyncBetween s d bd =
     (case bd of
        None \<Rightarrow>
          s\<lparr>warnings := warnings s @
               [''Object '' @ obj_name d @ '' points to a non existent collider for it's sync constrain.'']\<rparr>
      | Some b \<Rightarrow>
          s\<lparr>constraints := constraints s @
               [SyncConstraint \<lparr>sync_obj = d, sync_body = b, offsetPos = Vec3 0 0 0,
                                offsetQuat = Quat 0 0 0 1, hasInit = False\<rparr>]\<rparr>)"

subsection \<open>The cable rig\<close>

text \<open>
  Modelled from the spec: \<open>addToPhysicalWorld\<close> and \<open>removeFromPhysicalWorld\<close> of the
  cable rig of the package threejs-cannones-tube, which is not among the sources.  The
  specification says that the rig is registered in the physics world with its own chain of
  bodies and joints; here it registers one body for each position of its chain and one
  joint between consecutive bodies, and removes them again.
\<close>

fun alloc_chain :: "'m rigger \<Rightarrow> vec3 list \<Rightarrow> 'm rigger \<times> nat list" where
  "alloc_chain s [] = (s, [])"
| "alloc_chain s (p # ps) =
     (let r = next_ref s;
          s1 = addBody r (s\<lparr>heap := (heap s)(r := newBody\<lparr>position := p\<rparr>), next_ref := Suc r\<rparr>)
      in case alloc_chain s1 ps of (s2, rs) \<Rightarrow> (s2, r # rs))"

fun chain_joints :: "'m rigger \<Rightarrow> nat list \<Rightarrow> 'm rigger \<times> constraint_ref list" where
  "chain_joints s (a # b # rest) =
     (let c = (next_ref s, TubeJoint a b);
          s1 = addConstraint c (s\<lparr>next_ref := Suc (next_ref s)\<rparr>)
      in case chain_joints s1 (b # rest) of (s2, cs) \<Rightarrow> (s2, c # cs))"
| "chain_joints s rs = (s, [])"

definition addToPhysicalWorld :: "'m lib \<Rightarrow> 'm rigger \<Rightarrow> CannonTubeRig \<Rightarrow> 'm rigger \<times> CannonTubeRig" where
  "addToPhysicalWorld L s tube =
     (case tubeChain L (tube_length tube) (tube_position tube) (tube_lookAt tube) of
        (h, ps) \<Rightarrow>
          (case alloc_chain s (h # ps) of
             (s1, rs) \<Rightarrow>
               (case chain_joints s1 rs of
                  (s2, cs) \<Rightarrow>
                    (s2, tube\<lparr>head := hd rs, tail := last rs, tube_bodies := rs,
                              tube_constraints := cs\<rparr>))))"

definition removeFromPhysicalWorld :: "CannonTubeRig \<Rightarrow> 'm rigger \<Rightarrow> 'm rigger" where
  "removeFromPhysicalWorld tube s =
     fold removeBody (tube_bodies tube) (fold removeConstraint (tube_constraints tube) s)"

definition lockXTo ::
  "'m rigger \<Rightarrow> constraint_ref option \<Rightarrow> nat \<Rightarrow> nat option \<Rightarrow> 'm rigger \<times> constraint_ref option" where
  "lockXTo s old X target =
     (let s1 = (case old of Some c \<Rightarrow> removeConstraint c s | None \<Rightarrow> s)
      in case target of
           Some t \<Rightarrow>
             (let result = (next_ref s1,
                            NewPointToPointConstraint X (Vec3 0 0 0) t
                              (pointToLocalFrame (heap s1 t) (position (heap s1 X))))
              in (addConstraint result (s1\<lparr>next_ref := Suc (next_ref s1)\<rparr>), Some result))
         | None \<Rightarrow> (s1, None))"

definition lockHeadTo ::
  "'m rigger \<Rightarrow> 'm cable_constraint \<Rightarrow> nat option \<Rightarrow> 'm rigger \<times> 'm cable_constraint" where
  "lockHeadTo s c bd =
     (case lockXTo s (lockToA c) (head (cable c)) bd of (s1, r) \<Rightarrow> (s1, c\<lparr>lockToA := r\<rparr>))"

definition lockTailTo ::
  "'m rigger \<Rightarrow> 'm cable_constraint \<Rightarrow> nat option \<Rightarrow> 'm rigger \<times> 'm cable_constraint" where
  "lockTailTo s c bd =
     (case lockXTo s (lockToB c) (tail (cable c)) bd of (s1, r) \<Rightarrow> (s1, c\<lparr>lockToB := r\<rparr>))"

text \<open>The constructor of \<open>CableConstraint\<close>.\<close>

definition newCableConstraint ::
  "'m rigger \<Rightarrow> 'm object_data \<Rightarrow> CannonTubeRig \<Rightarrow> nat option \<Rightarrow> nat option
     \<Rightarrow> 'm rigger \<times> 'm cable_constraint" where
  "newCableConstraint s d tube stickToA stickToB =
     (let c = \<lparr>cable_obj = d, cable = tube, lockToA = None, lockToB = None\<rparr>
      in case (case stickToA of Some a \<Rightarrow> lockHeadTo s c (Some a) | None \<Rightarrow> (s, c)) of
           (s1, c1) \<Rightarrow>
             (case stickToB of Some b \<Rightarrow> lockTailTo s1 c1 (Some b) | None \<Rightarrow> (s1, c1)))"

text \<open>
  \<open>createCable\<close>.  \<open>vec\<close> and \<open>vec2\<close> are the scratch vectors of the module:
  \<open>getWorldPosition(vec)\<close> overwrites \<open>vec\<close>, \<open>localToWorld(vec2)\<close> transforms what \<open>vec2\<close>
  holds.  The rig is also added to the parent of the node as a visual child, which is not
  part of the state modelled here.
\<close>

definition createCable ::
  "'m lib \<Rightarrow> 'm rigger \<Rightarrow> 'm Object3D \<Rightarrow> nat option \<Rightarrow> nat option \<Rightarrow> 'm rigger" where
  "createCable L s ob stickToA stickToB =
     (let hasChilds = (length (children ob) > 1);
          s1 = (if hasChilds
                then s\<lparr>vec := getWorldPosition L (data (children ob ! 0)),
                       vec2 := localToWorld L (data (children ob ! 1)) (vec2 s)\<rparr>
                else s);
          cableLength = (if hasChilds then distanceTo (vec s1) (vec2 s1) else 1);
          tube = \<lparr>tube_length = cableLength, tube_position = Vec3 0 0 0, tube_lookAt = None,
                  head = 0, tail = 0, tube_bodies = [], tube_constraints = []\<rparr>;
          tube1 = (if hasChilds
                   then tube\<lparr>tube_position := vec s1, tube_lookAt := Some (vec2 s1)\<rparr>
                   else tube)
      in case addToPhysicalWorld L s1 tube1 of
           (s2, tube2) \<Rightarrow>
             (case newCableConstraint s2 (data ob) tube2 stickToA stickToB of
                (s3, c) \<Rightarrow> s3\<lparr>constraints := constraints s3 @ [CableConstraint c]\<rparr>))"

subsection \<open>Custom constraints\<close>

definition createCustomConstraint ::
  "'m rigger \<Rightarrow> 'm object_data \<Rightarrow> nat option \<Rightarrow> nat option \<Rightarrow> (error \<times> 'm rigger) + 'm rigger" where
  "createCustomConstraint s d a b =
     (let group = nullish_one (threejscannones_cgroup (userData d));
          msk = nullish_one (threejscannones_cwith (userData d))
      in case threejscannones_customId (userData d) of
           None \<Rightarrow> Inl (Error ''A custom constraint MUST have an id...'', s)
         | Some customID \<Rightarrow>
             if customID = [] then Inl (Error ''A custom constraint MUST have an id...'', s)
             else
               (case customId2ConstraintFactory s customID of
                  None \<Rightarrow>
                    Inl (Error (''Custom constraint with id '' @ customID @
                                '' not found. Dis you forgot to call registerCustomConstraint?''), s)
                | Some create \<Rightarrow>
                    Inr (s\<lparr>customConstraints :=
                             (customConstraints s)
                               (name (userData d) \<mapsto>
                                  create \<lparr>cfg_obj = d, collisionGroup = group,
                                          collisionMask = msk, cfg_A = a, cfg_B = b\<rparr>)\<rparr>)))"

subsection \<open>The callback and the two traversals\<close>

text \<open>A joint that was built is wrapped and pushed on \<open>this.constraints\<close>.\<close>

definition push_joint ::
  "'m object_data \<Rightarrow> (error \<times> 'm rigger) + ('m rigger \<times> constraint_ref) \<Rightarrow> (error \<times> 'm rigger) + 'm rigger" where
  "push_joint d r =
     (case r of
        Inl e \<Rightarrow> Inl e
      | Inr (s, c) \<Rightarrow> Inr (s\<lparr>constraints := constraints s @ [ThreeJsCannonEsConstraint d c]\<rparr>))"

text \<open>
  The callback of the second traversal.  The \<open>switch\<close> compares with \<open>===\<close>, so only a
  numeric tag can match a case.
\<close>

definition rig_constraint :: "'m lib \<Rightarrow> 'm rigger \<Rightarrow> 'm Object3D \<Rightarrow> (error \<times> 'm rigger) + 'm rigger" where
  "rig_constraint L s ob =
     (let d = data ob;
          a = getBodyByName s (threejscannones_A (userData d));
          b = getBodyByName s (threejscannones_B (userData d))
      in case threejscannones_type (userData d) of
           Some (TNum n) \<Rightarrow>
             if n = Type_code DistanceConstraint then push_joint d (createDistanceConstraint s a b)
             else if n = Type_code PointConstraint then push_joint d (createPointConstraint L s a b d)
             else if n = Type_code HingeConstraint then push_joint d (createHingeConstraint L s a b d)
             else if n = Type_code LockConstraint then push_joint d (createLockConstraint s a b)
             else if n = Type_code SyncLocRot then
               Inr (createSyncBetween s d
                      (getBodyByName s (threejscannones_syncSource (userData d))))
             else if n = Type_code Cable then Inr (createCable L s ob a b)
             else if n = Type_code Custom then createCustomConstraint s d a b
             else Inr s
         | _ \<Rightarrow> Inr s)"

fun pass2 :: "'m lib \<Rightarrow> 'm rigger \<Rightarrow> 'm Object3D list \<Rightarrow> (error \<times> 'm rigger) + 'm rigger" where
  "pass2 L s [] = Inr s"
| "pass2 L s (ob # obs) =
     (case rig_constraint L s ob of Inl e \<Rightarrow> Inl e | Inr s1 \<Rightarrow> pass2 L s1 obs)"

definition rigScene :: "'m lib \<Rightarrow> 'm rigger \<Rightarrow> 'm Object3D \<Rightarrow> (error \<times> 'm rigger) + 'm rigger" where
  "rigScene L s scene = (case pass1 L s (traverse scene) of (s1, obs) \<Rightarrow> pass2 L s1 obs)"

section \<open>Teardown and the per-frame update\<close>

text \<open>\<open>removeFrom\<close> of the three classes.\<close>

definition removeFrom :: "'m tracked \<Rightarrow> 'm rigger \<Rightarrow> 'm rigger" where
  "removeFrom c s =
     (case c of
        ThreeJsCannonEsConstraint d cc \<Rightarrow> removeConstraint cc s
      | SyncConstraint sc \<Rightarrow> s
      | CableConstraint cb \<Rightarrow>
          (let s1 = (case lockToA cb of Some l \<Rightarrow> removeConstraint l s | None \<Rightarrow> s);
               s2 = (case lockToB cb of Some l \<Rightarrow> removeConstraint l s1 | None \<Rightarrow> s1)
           in removeFromPhysicalWorld (cable cb) s2))"

text \<open>
  \<open>clear\<close>: the scratch values are zeroed, the constraints are popped from the end of the
  list and removed, the bodies of \<open>obj2bod\<close> are removed and \<open>obj2bod\<close> is emptied.
\<close>

definition clear :: "'m rigger \<Rightarrow> 'm rigger" where
  "clear s =
     (let s1 = s\<lparr>vec := Vec3 0 0 0, vec2 := Vec3 0 0 0, rot := Quat 0 0 0 0, rot2 := Quat 0 0 0 0\<rparr>;
          s2 = fold removeFrom (rev (constraints s1)) s1;
          s3 = s2\<lparr>constraints := []\<rparr>;
          s4 = fold (\<lambda>e. removeBody (snd e)) (obj2bod s3) s3
      in s4\<lparr>obj2bod := []\<rparr>)"

subsection \<open>The sync link\<close>

definition initOffsets :: "'m lib \<Rightarrow> (nat \<Rightarrow> body) \<Rightarrow> 'm sync \<Rightarrow> 'm sync" where
  "initOffsets L h c =
     (let bodyPos = Vec3 (vx (position (h (sync_body c)))) (vy (position (h (sync_body c))))
                         (vz (position (h (sync_body c))));
          bodyQuat = Quat (qx (quaternion (h (sync_body c)))) (qy (quaternion (h (sync_body c))))
                          (qz (quaternion (h (sync_body c)))) (qw (quaternion (h (sync_body c))));
          objWorldPos = getWorldPosition L (sync_obj c);
          objWorldQuat = getWorldQuaternion L (sync_obj c)
      in c\<lparr>offsetPos := applyQuaternion (vsub objWorldPos bodyPos) (qinvert bodyQuat),
            offsetQuat := qmultiply (qinvert bodyQuat) objWorldQuat,
            hasInit := True\<rparr>)"

text \<open>The world pose that \<open>update\<close> computes from the pose of the body and the cached offset.\<close>

definition sync_world_pose :: "(nat \<Rightarrow> body) \<Rightarrow> 'm sync \<Rightarrow> vec3 \<times> quat" where
  "sync_world_pose h c =
     (let bodyPos = Vec3 (vx (position (h (sync_body c)))) (vy (position (h (sync_body c))))
                         (vz (position (h (sync_body c))));
          bodyQuat = Quat (qx (quaternion (h (sync_body c)))) (qy (quaternion (h (sync_body c))))
                          (qz (quaternion (h (sync_body c)))) (qw (quaternion (h (sync_body c))));
          worldQuat = qmultiply bodyQuat (offsetQuat c);
          worldPos = vadd (applyQuaternion (offsetPos c) bodyQuat) bodyPos
      in (worldPos, worldQuat))"

definition SyncConstraint_update :: "'m lib \<Rightarrow> (nat \<Rightarrow> body) \<Rightarrow> 'm sync \<Rightarrow> 'm sync" where
  "SyncConstraint_update L h c =
     (let c1 = (if \<not> hasInit c then initOffsets L h c else c)
      in case sync_world_pose h c1 of
           (worldPos, worldQuat) \<Rightarrow>
             (case parent (sync_obj c1) of
                Some pm \<Rightarrow>
                  (let mat = compose L worldPos worldQuat (Vec3 1 1 1);
                       parentInv = invert L pm;
                       mat1 = premultiply L mat parentInv
                   in case decompose L mat1 of
                        (p, q, sc) \<Rightarrow>
                          c1\<lparr>sync_obj := (sync_obj c1)\<lparr>obj_position := p, obj_quaternion := q\<rparr>\<rparr>)
              | None \<Rightarrow>
                  c1\<lparr>sync_obj := (sync_obj c1)\<lparr>obj_position := worldPos,
                                                  obj_quaternion := worldQuat\<rparr>\<rparr>))"

text \<open>
  \<open>update\<close> of the rigger calls \<open>update\<close> of every tracked constraint: a plain joint does
  nothing, a cable resyncs its skin (nothing in this state), a sync link moves its node.
\<close>

definition tracked_update :: "'m lib \<Rightarrow> (nat \<Rightarrow> body) \<Rightarrow> 'm tracked \<Rightarrow> 'm tracked" where
  "tracked_update L h c =
     (case c of SyncConstraint sc \<Rightarrow> SyncConstraint (SyncConstraint_update L h sc) | _ \<Rightarrow> c)"

definition update :: "'m lib \<Rightarrow> 'm rigger \<Rightarrow> 'm rigger" where
  "update L s = s\<lparr>constraints := map (tracked_update L (heap s)) (constraints s)\<rparr>"

section \<open>The words of the specification\<close>

text \<open>
  Follows the words of the specification, not the code: the bitwise OR of \<open>1 << index\<close>
  over a list of selected bit indices.
\<close>

definition spec_index_bitmask :: "nat list \<Rightarrow> 32 word" where
  "spec_index_bitmask idxs = fold (\<lambda>i m. m OR push_bit i 1) idxs 0"


section \<open>Concrete scenes\<close>

text \<open>
  An instance of the library record for scenes whose world matrices are pure translations:
  a matrix is its translation vector.  Its cable rig is a chain of two bodies, the head at
  the position of the rig and the tail at the look-at target.
\<close>

definition translation_lib :: "vec3 lib" where
  "translation_lib =
     \<lparr>compose = (\<lambda>p q sc. p),
      invert = (\<lambda>m. Vec3 (- vx m) (- vy m) (- vz m)),
      premultiply = (\<lambda>a b. vadd b a),
      decompose = (\<lambda>m. (m, Quat 0 0 0 1, Vec3 1 1 1)),
      setFromMatrixPosition = (\<lambda>m. m),
      applyMatrix4 = (\<lambda>v m. vadd v m),
      tubeChain = (\<lambda>l p t. (p, [case t of None \<Rightarrow> vadd p (Vec3 0 0 l) | Some x \<Rightarrow> x]))\<rparr>"

definition no_userData :: userData where
  "no_userData =
     \<lparr>name = None, threejscannones_type = None, threejscannones_cgroup = None,
      threejscannones_cgroup_array = None, threejscannones_cwith = None,
      threejscannones_cwith_array = None, threejscannones_mass = None,
      threejscannones_A = None, threejscannones_B = None,
      threejscannones_syncSource = None, threejscannones_customId = None\<rparr>"

text \<open>An object without a parent at a world position, with the given identity and annotations.\<close>

definition object_at :: "nat \<Rightarrow> userData \<Rightarrow> vec3 \<Rightarrow> vec3 object_data" where
  "object_at i u p =
     \<lparr>oid = i, obj_name = [], userData = u, visible = True, obj_position = p,
      obj_quaternion = Quat 0 0 0 1, scale = Vec3 1 1 1, matrixWorld = p, parent = None\<rparr>"

text \<open>A rigger on an empty world.\<close>

definition empty_rigger :: "vec3 rigger" where
  "empty_rigger = newRigger [] [] (\<lambda>r. newBody) 0"

section \<open>Auxiliary notions for the proofs\<close>

text \<open>
  \<open>world_only s s1\<close>: going from \<open>s\<close> to \<open>s1\<close> changed nothing but the physics world, the
  bodies and the reference counter.
\<close>

definition world_only :: "'m rigger \<Rightarrow> 'm rigger \<Rightarrow> bool" where
  "world_only s s1 =
     (customConstraints s1 = customConstraints s \<and> obj2bod s1 = obj2bod s
      \<and> customId2ConstraintFactory s1 = customId2ConstraintFactory s
      \<and> constraints s1 = constraints s \<and> warnings s1 = warnings s
      \<and> vec s1 = vec s \<and> vec2 s1 = vec2 s \<and> rot s1 = rot s \<and> rot2 s1 = rot2 s)"

text \<open>A tag that makes the first traversal build a body.\<close>

definition is_collider :: "tag_value option \<Rightarrow> bool" where
  "is_collider t =
     (type_eq t BoxCollider \<or> type_eq t SphereCollider \<or> type_eq t CompoundCollider)"

text \<open>
  A scene of one custom-constraint node named \<open>N\<close> with the identifier \<open>foo\<close>, a rigger with
  a factory registered for \<open>foo\<close>, and a scene of one sync node whose source is not a
  collider of the scene.
\<close>

definition custom_scene :: "vec3 Object3D" where
  "custom_scene =
     Object3D (object_at 0 (no_userData\<lparr>name := Some ''N'',
                                          threejscannones_type := Some (TStr ''custom''),
                                          threejscannones_customId := Some ''foo''\<rparr>) (Vec3 0 0 0)) []"

definition custom_rigger :: "vec3 rigger" where
  "custom_rigger = registerCustomConstraint ''foo'' (\<lambda>cfg. HostObject 7) empty_rigger"


text \<open>
  A scene whose root has two children: a box collider without a name at (0, 1, 0) and a
  sync node named \<open>Link\<close> without a sync source.
\<close>

definition unnamed_scene :: "vec3 Object3D" where
  "unnamed_scene =
     Object3D (object_at 0 no_userData (Vec3 0 0 0))
       [Object3D (object_at 1 (no_userData\<lparr>threejscannones_type := Some (TStr ''box'')\<rparr>) (Vec3 0 1 0)) [],
        Object3D (object_at 2 (no_userData\<lparr>name := Some ''Link'',
                                             threejscannones_type := Some (TStr ''sync'')\<rparr>) (Vec3 5 0 0)) []]"

text \<open>The object after the three normalisation steps of the first callback.\<close>

definition normalized :: "'m object_data \<Rightarrow> 'm object_data" where
  "normalized d =
     d\<lparr>userData := (userData d)
          \<lparr>threejscannones_type := normalize_type (threejscannones_type (userData d)),
           threejscannones_cgroup :=
             normalize_mask (threejscannones_cgroup (userData d))
               (threejscannones_cgroup_array (userData d)),
           threejscannones_cwith :=
             normalize_mask (threejscannones_cwith (userData d))
               (threejscannones_cwith_array (userData d))\<rparr>\<rparr>"




text \<open>
  A scene with two cable nodes.  The children of the first are at (0, 0, 0) and (3, 0, 0),
  the children of the second at (0, 0, 0) and (0, 4, 0).
\<close>

definition two_cables_scene :: "vec3 Object3D" where
  "two_cables_scene =
     Object3D (object_at 0 no_userData (Vec3 0 0 0))
       [Object3D (object_at 1 (no_userData\<lparr>name := Some ''Rope1'',
                                              threejscannones_type := Some (TStr ''tube'')\<rparr>) (Vec3 0 0 0))
          [Object3D (object_at 2 no_userData (Vec3 0 0 0)) [],
           Object3D (object_at 3 no_userData (Vec3 3 0 0)) []],
        Object3D (object_at 4 (no_userData\<lparr>name := Some ''Rope2'',
                                              threejscannones_type := Some (TStr ''tube'')\<rparr>) (Vec3 0 0 0))
          [Object3D (object_at 5 no_userData (Vec3 0 0 0)) [],
           Object3D (object_at 6 no_userData (Vec3 0 4 0)) []]]"

section \<open>Normalisation of annotations\<close>

lemma reduce_flags_bit:
  "bit (reduce_flags m k fl) i \<longleftrightarrow>
     bit m i \<or> (\<exists>j<length fl. bit (push_bit ((k + j) mod 32) (word_of_int (fl ! j) :: 32 word)) i)"
proof (induction fl arbitrary: m k)
  case Nil
  then show ?case by simp
next
  case (Cons b fl)
  have "(\<exists>j<Suc (length fl). bit (push_bit ((k + j) mod 32) (word_of_int ((b # fl) ! j) :: 32 word)) i)
        \<longleftrightarrow> bit (push_bit (k mod 32) (word_of_int b :: 32 word)) i
            \<or> (\<exists>j<length fl. bit (push_bit ((Suc k + j) mod 32) (word_of_int (fl ! j) :: 32 word)) i)"
    by (auto simp: less_Suc_eq_0_disj)
  then show ?case
    by (simp add: Cons.IH bit_or_iff disj_assoc)
qed

lemma arrayToBitmask_word:
  "(word_of_int (arrayToBitmask (MArr fl) arr) :: 32 word) = reduce_flags 0 0 fl"
  by (simp add: arrayToBitmask_def Let_def)

lemma flag_bit:
  assumes "b = 0 \<or> b = 1" "j < 32"
  shows "bit (push_bit j (word_of_int b :: 32 word)) i \<longleftrightarrow> (b = 1 \<and> i = j)"
  using assms by (auto simp: bit_push_bit_iff bit_1_iff)

lemma bitmask_of_flags:
  assumes "length fl \<le> 32" "set fl \<subseteq> {0, 1}"
  shows "bit (word_of_int (arrayToBitmask (MArr fl) arr) :: 32 word) i \<longleftrightarrow> (i < length fl \<and> fl ! i = 1)"
proof -
  have flag: "fl ! j = 0 \<or> fl ! j = 1" if "j < length fl" for j
    using assms(2) nth_mem [OF that] by auto
  have "\<And>j. j < length fl \<Longrightarrow>
          bit (push_bit ((0 + j) mod 32) (word_of_int (fl ! j) :: 32 word)) i \<longleftrightarrow> (fl ! j = 1 \<and> i = j)"
    using assms(1) flag by (subst flag_bit) auto
  then show ?thesis
    unfolding arrayToBitmask_word reduce_flags_bit by auto
qed

lemma arrayToBitmask_number: "arrayToBitmask (MNum n) arr = arrayToBitmask (MArr (case arr of None \<Rightarrow> [] | Some a \<Rightarrow> a)) None"
  by (simp add: arrayToBitmask_def)

lemma createCollider_facts:
  assumes "createCollider L s sh d = (s1, d1, r)"
  shows "r = next_ref s" "next_ref s1 = Suc (next_ref s)"
    "d1 = d\<lparr>visible := False\<rparr>"
    "obj2bod s1 = map_set d1 r (obj2bod s)"
    "heap s1 = (heap s)(r := \<lparr>shapes = (case sh of None \<Rightarrow> [] | Some x \<Rightarrow> [(x, Vec3 0 0 0, Quat 0 0 0 1)]),
               mass = (case threejscannones_mass (userData d) of None \<Rightarrow> 0 | Some m \<Rightarrow> m),
               collisionFilterGroup = nullish_one (threejscannones_cgroup (userData d)),
               collisionFilterMask = nullish_one (threejscannones_cwith (userData d)),
               position = getWorldPosition L d,
               quaternion = getWorldQuaternion L d\<rparr>)"
  using assms
  by (auto simp: createCollider_def Let_def addBody_def getWorldPosition_def getWorldQuaternion_def)

text \<open>
  Claim C4, as the specification states it: normalising an already-integer collision group
  or mask returns that integer unchanged.  The code does not: the integer 5 on a node
  without a companion array becomes 0.
\<close>

theorem integer_mask_is_not_kept:
  "normalize_mask (Some (MNum 5)) None \<noteq> Some (MNum 5)"
  by (simp add: normalize_mask_def arrayToBitmask_def)

text \<open>
  Claim C4, amended: a numeric tag is returned unchanged.  An integer group or mask is
  left as it is only when it is 0; a non-zero integer is replaced by the bitmask of the
  companion \<open>_array\<close> annotation of the node, and by 0 when that annotation is absent, so
  a repeated scan derives the value from the companion array again.
\<close>

theorem normalising_normalised_values:
  "normalize_type (Some (TNum n)) = Some (TNum n)
   \<and> normalize_mask (Some (MNum 0)) arr = Some (MNum 0)
   \<and> normalize_mask (Some (MNum k)) arr =
       Some (MNum (if k = 0 then 0
                   else arrayToBitmask (MArr (case arr of None \<Rightarrow> [] | Some a \<Rightarrow> a)) None))
   \<and> normalize_mask (Some (MNum k)) None = Some (MNum 0)"
  by (simp add: normalize_type_def normalize_mask_def arrayToBitmask_def)

section \<open>The second traversal\<close>

lemma pass2_append:
  "pass2 L s (xs @ ys) = (case pass2 L s xs of Inl e \<Rightarrow> Inl e | Inr s1 \<Rightarrow> pass2 L s1 ys)"
  by (induction xs arbitrary: s) (auto split: sum.splits)

lemma Type_code_simps [simp]:
  "Type_code a = Type_code b \<longleftrightarrow> a = b"
  by (cases a; cases b) simp_all

lemma rig_constraint_sync:
  assumes "type_eq (threejscannones_type (userData (data ob))) SyncLocRot"
  shows "rig_constraint L s ob =
           Inr (createSyncBetween s (data ob)
                  (getBodyByName s (threejscannones_syncSource (userData (data ob)))))"
  using assms by (simp add: rig_constraint_def type_eq_def Let_def)

lemma rig_constraint_custom:
  assumes "type_eq (threejscannones_type (userData (data ob))) Custom"
  shows "rig_constraint L s ob =
           createCustomConstraint s (data ob)
             (getBodyByName s (threejscannones_A (userData (data ob))))
             (getBodyByName s (threejscannones_B (userData (data ob))))"
  using assms by (simp add: rig_constraint_def type_eq_def Let_def)

lemma world_only_refl: "world_only s s"
  by (simp add: world_only_def)

lemma world_only_trans: "world_only s s1 \<Longrightarrow> world_only s1 s2 \<Longrightarrow> world_only s s2"
  by (simp add: world_only_def)

lemma world_only_prims:
  "world_only s (addBody r s)" "world_only s (removeBody r s)"
  "world_only s (addConstraint c s)" "world_only s (removeConstraint c s)"
  "world_only s (s\<lparr>next_ref := n\<rparr>)" "world_only s (s\<lparr>heap := h\<rparr>)"
  "world_only s (s\<lparr>heap := h, next_ref := n\<rparr>)"
  by (simp_all add: world_only_def addBody_def removeBody_def addConstraint_def removeConstraint_def)

lemma alloc_chain_frame: "alloc_chain s ps = (s1, rs) \<Longrightarrow> world_only s s1"
proof (induction ps arbitrary: s s1 rs)
  case Nil
  then show ?case by (simp add: world_only_refl)
next
  case (Cons p ps)
  let ?s = "addBody (next_ref s) (s\<lparr>heap := (heap s)(next_ref s := newBody\<lparr>position := p\<rparr>), next_ref := Suc (next_ref s)\<rparr>)"
  obtain s2 rs2 where r: "alloc_chain ?s ps = (s2, rs2)" by (cases "alloc_chain ?s ps") auto
  with Cons.prems have "s1 = s2" by (simp add: Let_def)
  moreover have "world_only s ?s"
    by (rule world_only_trans [OF world_only_prims(7) world_only_prims(1)])
  ultimately show ?case using Cons.IH [OF r] world_only_trans by blast
qed

lemma chain_joints_frame: "chain_joints s rs = (s1, cs) \<Longrightarrow> world_only s s1"
proof (induction s rs arbitrary: s1 cs rule: chain_joints.induct)
  case (1 s a b rest)
  let ?s = "addConstraint (next_ref s, TubeJoint a b) (s\<lparr>next_ref := Suc (next_ref s)\<rparr>)"
  obtain s2 cs2 where r: "chain_joints ?s (b # rest) = (s2, cs2)"
    by (cases "chain_joints ?s (b # rest)") auto
  with "1.prems" have "s1 = s2" by (simp add: Let_def)
  moreover have "world_only s ?s"
    by (rule world_only_trans [OF world_only_prims(5) world_only_prims(3)])
  ultimately show ?case using "1.IH" [OF refl refl r] world_only_trans by blast
qed (simp_all add: world_only_refl)

lemma addToPhysicalWorld_frame:
  assumes "addToPhysicalWorld L s t = (s1, t1)"
  shows "world_only s s1"
proof -
  obtain h ps where c: "tubeChain L (tube_length t) (tube_position t) (tube_lookAt t) = (h, ps)"
    by (cases "tubeChain L (tube_length t) (tube_position t) (tube_lookAt t)") auto
  obtain s2 rs where a: "alloc_chain s (h # ps) = (s2, rs)"
    by (cases "alloc_chain s (h # ps)") auto
  obtain s3 cs where j: "chain_joints s2 rs = (s3, cs)"
    by (cases "chain_joints s2 rs") auto
  have "s1 = s3"
    using assms c a j by (simp add: addToPhysicalWorld_def del: alloc_chain.simps)
  then show ?thesis
    using alloc_chain_frame [OF a] chain_joints_frame [OF j] world_only_trans by blast
qed

lemma lockXTo_frame: "lockXTo s old X t = (s1, r) \<Longrightarrow> world_only s s1"
  by (auto simp: lockXTo_def Let_def world_only_def addConstraint_def removeConstraint_def
      split: option.splits)

lemma newCableConstraint_frame:
  assumes "newCableConstraint s d t a b = (s1, c)"
  shows "world_only s s1"
proof -
  let ?c = "\<lparr>cable_obj = d, cable = t, lockToA = None, lockToB = None\<rparr>"
  obtain sa ca where h: "(case a of Some x \<Rightarrow> lockHeadTo s ?c (Some x) | None \<Rightarrow> (s, ?c)) = (sa, ca)"
    by (cases "(case a of Some x \<Rightarrow> lockHeadTo s ?c (Some x) | None \<Rightarrow> (s, ?c))") auto
  have 1: "world_only s sa"
    using h by (auto simp: lockHeadTo_def world_only_refl split: option.splits prod.splits
        dest: lockXTo_frame)
  have "(case b of Some x \<Rightarrow> lockTailTo sa ca (Some x) | None \<Rightarrow> (sa, ca)) = (s1, c)"
    using assms h by (simp add: newCableConstraint_def Let_def)
  then have 2: "world_only sa s1"
    by (auto simp: lockTailTo_def world_only_refl split: option.splits prod.splits
        dest: lockXTo_frame)
  show ?thesis using 1 2 world_only_trans by blast
qed

lemma createCable_frame:
  "customConstraints (createCable L s ob a b) = customConstraints s
   \<and> obj2bod (createCable L s ob a b) = obj2bod s
   \<and> customId2ConstraintFactory (createCable L s ob a b) = customId2ConstraintFactory s"
proof -
  define s1 where "s1 = (if length (children ob) > 1
                then s\<lparr>vec := getWorldPosition L (data (children ob ! 0)),
                       vec2 := localToWorld L (data (children ob ! 1)) (vec2 s)\<rparr>
                else s)"
  define tube1 where "tube1 = (let tube = \<lparr>tube_length = (if length (children ob) > 1 then distanceTo (vec s1) (vec2 s1) else 1), tube_position = Vec3 0 0 0, tube_lookAt = None,
                  head = 0, tail = 0, tube_bodies = [], tube_constraints = []\<rparr> in (if length (children ob) > 1
                   then tube\<lparr>tube_position := vec s1, tube_lookAt := Some (vec2 s1)\<rparr>
                   else tube))"
  obtain s2 tube2 where a: "addToPhysicalWorld L s1 tube1 = (s2, tube2)"
    by (cases "addToPhysicalWorld L s1 tube1") auto
  obtain s3 c where n: "newCableConstraint s2 (data ob) tube2 a b = (s3, c)"
    by (cases "newCableConstraint s2 (data ob) tube2 a b") auto
  have e: "createCable L s ob a b = s3\<lparr>constraints := constraints s3 @ [CableConstraint c]\<rparr>"
    using a n unfolding createCable_def s1_def tube1_def Let_def by simp
  have "world_only s1 s3"
    using addToPhysicalWorld_frame [OF a] newCableConstraint_frame [OF n] world_only_trans by blast
  then show ?thesis
    unfolding e by (simp add: world_only_def s1_def)
qed

lemma push_joint_frame:
  assumes "push_joint d r = Inr s1" "\<And>s' c. r = Inr (s', c) \<Longrightarrow> customConstraints s' = customConstraints s \<and> obj2bod s' = obj2bod s \<and> customId2ConstraintFactory s' = customId2ConstraintFactory s"
  shows "customConstraints s1 = customConstraints s \<and> obj2bod s1 = obj2bod s \<and> customId2ConstraintFactory s1 = customId2ConstraintFactory s"
  using assms by (auto simp: push_joint_def split: sum.splits prod.splits)

lemma joints_frame:
  "createDistanceConstraint s a b = Inr (s', c) \<Longrightarrow> customConstraints s' = customConstraints s \<and> obj2bod s' = obj2bod s \<and> customId2ConstraintFactory s' = customId2ConstraintFactory s"
  "createLockConstraint s a b = Inr (s', c) \<Longrightarrow> customConstraints s' = customConstraints s \<and> obj2bod s' = obj2bod s \<and> customId2ConstraintFactory s' = customId2ConstraintFactory s"
  "createPointConstraint L s a b d = Inr (s', c) \<Longrightarrow> customConstraints s' = customConstraints s \<and> obj2bod s' = obj2bod s \<and> customId2ConstraintFactory s' = customId2ConstraintFactory s"
  "createHingeConstraint L s a b d = Inr (s', c) \<Longrightarrow> customConstraints s' = customConstraints s \<and> obj2bod s' = obj2bod s \<and> customId2ConstraintFactory s' = customId2ConstraintFactory s"
  by (auto simp: createDistanceConstraint_def createLockConstraint_def createPointConstraint_def
      createHingeConstraint_def Let_def addConstraint_def split: option.splits)

lemma createCustomConstraint_frame:
  "createCustomConstraint s d a b = Inr s1 \<Longrightarrow>
     obj2bod s1 = obj2bod s \<and> customId2ConstraintFactory s1 = customId2ConstraintFactory s
     \<and> (\<forall>k. k \<noteq> name (userData d) \<longrightarrow> customConstraints s1 k = customConstraints s k)"
  by (auto simp: createCustomConstraint_def Let_def split: option.splits if_splits)

lemma rig_constraint_frame:
  assumes "rig_constraint L s ob = Inr s1"
  shows "obj2bod s1 = obj2bod s \<and> customId2ConstraintFactory s1 = customId2ConstraintFactory s
    \<and> (\<not> (type_eq (threejscannones_type (userData (data ob))) Custom \<and> name (userData (data ob)) = k)
       \<longrightarrow> customConstraints s1 k = customConstraints s k)"
  using assms
  unfolding rig_constraint_def Let_def
  apply (simp split: option.splits tag_value.splits if_splits)
  apply (auto dest: push_joint_frame[OF _ joints_frame(1)] push_joint_frame[OF _ joints_frame(2)]
        push_joint_frame[OF _ joints_frame(3)] push_joint_frame[OF _ joints_frame(4)]
        createCustomConstraint_frame simp: createCable_frame createSyncBetween_def type_eq_def split: option.splits)
  done

lemma rig_body_frame:
  assumes "rig_body L s ob = (s1, ob1)"
  shows "customId2ConstraintFactory s1 = customId2ConstraintFactory s
     \<and> customConstraints s1 = customConstraints s \<and> constraints s1 = constraints s
     \<and> world_constraints s1 = world_constraints s \<and> warnings s1 = warnings s
     \<and> vec s1 = vec s \<and> vec2 s1 = vec2 s"
  using assms
  by (auto simp: rig_body_def Let_def createCollider_def addCompoundShapes_def addBody_def
      split: if_splits prod.splits)

lemma pass1_frame:
  "pass1 L s obs = (s1, obs1) \<Longrightarrow>
     customId2ConstraintFactory s1 = customId2ConstraintFactory s
     \<and> customConstraints s1 = customConstraints s \<and> constraints s1 = constraints s
     \<and> world_constraints s1 = world_constraints s \<and> warnings s1 = warnings s
     \<and> vec s1 = vec s \<and> vec2 s1 = vec2 s"
proof (induction obs arbitrary: s s1 obs1)
  case Nil
  then show ?case by simp
next
  case (Cons ob obs)
  obtain sa oa where a: "rig_body L s ob = (sa, oa)" by (cases "rig_body L s ob") auto
  obtain sb ob' where b: "pass1 L sa obs = (sb, ob')" by (cases "pass1 L sa obs") auto
  have "s1 = sb" using Cons.prems a b by simp
  then show ?case using rig_body_frame [OF a] Cons.IH [OF b] by simp
qed

lemma pass2_frame:
  "pass2 L s obs = Inr s1 \<Longrightarrow>
     obj2bod s1 = obj2bod s \<and> customId2ConstraintFactory s1 = customId2ConstraintFactory s
     \<and> ((\<forall>ob\<in>set obs. \<not> (type_eq (threejscannones_type (userData (data ob))) Custom
                              \<and> name (userData (data ob)) = k))
          \<longrightarrow> customConstraints s1 k = customConstraints s k)"
proof (induction obs arbitrary: s)
  case Nil
  then show ?case by simp
next
  case (Cons ob obs)
  then obtain s2 where a: "rig_constraint L s ob = Inr s2" and b: "pass2 L s2 obs = Inr s1"
    by (auto split: sum.splits)
  show ?case
    using Cons.IH [OF b] rig_constraint_frame [OF a, of k] by auto
qed

lemma find_body_first:
  assumes "\<forall>e\<in>set pre. name (userData (fst e)) \<noteq> nm" "name (userData d) = nm"
  shows "find_body (pre @ (d, r) # post) nm = Some r"
  using assms by (induction pre) auto


text \<open>
  Claim C6: the callback of a custom-constraint node throws exactly when the node has no
  identifier (absent or the empty string) or no factory is registered for the identifier,
  and the exception ends \<open>rigScene\<close>.  Otherwise the value the factory returns for the
  configuration of the node is stored under the name of the node, and after \<open>rigScene\<close>
  \<open>getCustomConstraint\<close> returns that same value for the name, as long as no custom node
  visited later has the same name.
\<close>

theorem custom_constraint_dispatch:
  assumes "pass1 L sI (traverse scene) = (s0, before @ ob # rest)"
      and "type_eq (threejscannones_type (userData (data ob))) Custom"
      and "pass2 L s0 before = Inr s"
  shows "((\<exists>e. rig_constraint L s ob = Inl e) \<longleftrightarrow>
            (threejscannones_customId (userData (data ob)) = None
             \<or> threejscannones_customId (userData (data ob)) = Some []
             \<or> (\<exists>k. threejscannones_customId (userData (data ob)) = Some k
                    \<and> customId2ConstraintFactory sI k = None)))
         \<and> (\<forall>e. rig_constraint L s ob = Inl e \<longrightarrow> rigScene L sI scene = Inl e)
         \<and> (\<forall>k create.
               threejscannones_customId (userData (data ob)) = Some k \<and> k \<noteq> []
               \<and> customId2ConstraintFactory sI k = Some create \<longrightarrow>
               (\<exists>s1. rig_constraint L s ob = Inr s1
                  \<and> customConstraints s1 (name (userData (data ob))) =
                      Some (create \<lparr>cfg_obj = data ob,
                                    collisionGroup = nullish_one (threejscannones_cgroup (userData (data ob))),
                                    collisionMask = nullish_one (threejscannones_cwith (userData (data ob))),
                                    cfg_A = getBodyByName s0 (threejscannones_A (userData (data ob))),
                                    cfg_B = getBodyByName s0 (threejscannones_B (userData (data ob)))\<rparr>)
                  \<and> (\<forall>s2 nm. rigScene L sI scene = Inr s2
                        \<and> name (userData (data ob)) = Some nm
                        \<and> (\<forall>ob'\<in>set rest. \<not> (type_eq (threejscannones_type (userData (data ob'))) Custom
                                               \<and> name (userData (data ob')) = Some nm)) \<longrightarrow>
                        getCustomConstraint s2 nm =
                          Some (create \<lparr>cfg_obj = data ob,
                                    collisionGroup = nullish_one (threejscannones_cgroup (userData (data ob))),
                                    collisionMask = nullish_one (threejscannones_cwith (userData (data ob))),
                                    cfg_A = getBodyByName s0 (threejscannones_A (userData (data ob))),
                                    cfg_B = getBodyByName s0 (threejscannones_B (userData (data ob)))\<rparr>))))"
proof -
  let ?d = "data ob"
  let ?cfg = "\<lparr>cfg_obj = data ob,
               collisionGroup = nullish_one (threejscannones_cgroup (userData (data ob))),
               collisionMask = nullish_one (threejscannones_cwith (userData (data ob))),
               cfg_A = getBodyByName s0 (threejscannones_A (userData (data ob))),
               cfg_B = getBodyByName s0 (threejscannones_B (userData (data ob)))\<rparr>"
  have f0: "customId2ConstraintFactory s0 = customId2ConstraintFactory sI"
    using pass1_frame [OF assms(1)] by simp
  have f1: "obj2bod s = obj2bod s0" "customId2ConstraintFactory s = customId2ConstraintFactory sI"
    using pass2_frame [OF assms(3)] f0 by simp_all
  have lk: "getBodyByName s nm = getBodyByName s0 nm" for nm
    using f1(1) by (simp add: getBodyByName_def)
  have rc: "rig_constraint L s ob =
              createCustomConstraint s ?d (getBodyByName s0 (threejscannones_A (userData ?d)))
                (getBodyByName s0 (threejscannones_B (userData ?d)))"
    using rig_constraint_custom [OF assms(2)] lk by simp
  have rs: "rigScene L sI scene =
              (case rig_constraint L s ob of Inl e \<Rightarrow> Inl e | Inr s1 \<Rightarrow> pass2 L s1 rest)"
    using assms(1,3) by (simp add: rigScene_def pass2_append)
  have 1: "(\<exists>e. rig_constraint L s ob = Inl e) \<longleftrightarrow>
            (threejscannones_customId (userData ?d) = None
             \<or> threejscannones_customId (userData ?d) = Some []
             \<or> (\<exists>k. threejscannones_customId (userData ?d) = Some k
                    \<and> customId2ConstraintFactory sI k = None))"
    unfolding rc createCustomConstraint_def Let_def f1(2)
    by (auto split: option.splits)
  have 2: "\<forall>e. rig_constraint L s ob = Inl e \<longrightarrow> rigScene L sI scene = Inl e"
    using rs by simp
  have 3: "\<exists>s1. rig_constraint L s ob = Inr s1
              \<and> customConstraints s1 (name (userData ?d)) = Some (create ?cfg)
              \<and> (\<forall>s2 nm. rigScene L sI scene = Inr s2
                    \<and> name (userData ?d) = Some nm
                    \<and> (\<forall>ob'\<in>set rest. \<not> (type_eq (threejscannones_type (userData (data ob'))) Custom
                                           \<and> name (userData (data ob')) = Some nm)) \<longrightarrow>
                    getCustomConstraint s2 nm = Some (create ?cfg))"
    if h: "threejscannones_customId (userData ?d) = Some k" "k \<noteq> []"
          "customId2ConstraintFactory sI k = Some create" for k create
  proof -
    let ?s1 = "s\<lparr>customConstraints := (customConstraints s)(name (userData ?d) \<mapsto> create ?cfg)\<rparr>"
    have e: "rig_constraint L s ob = Inr ?s1"
      unfolding rc createCustomConstraint_def Let_def using h f1(2) by simp
    have "getCustomConstraint s2 nm = Some (create ?cfg)"
      if g: "rigScene L sI scene = Inr s2" "name (userData ?d) = Some nm"
            "\<forall>ob'\<in>set rest. \<not> (type_eq (threejscannones_type (userData (data ob'))) Custom
                                 \<and> name (userData (data ob')) = Some nm)" for s2 nm
    proof -
      have p: "pass2 L ?s1 rest = Inr s2" using g(1) rs e by simp
      have "customConstraints s2 (Some nm) = customConstraints ?s1 (Some nm)"
        using pass2_frame [OF p, of "Some nm"] g(3) by blast
      then show ?thesis using g(2) by (simp add: getCustomConstraint_def)
    qed
    then show ?thesis using e by auto
  qed
  show ?thesis using 1 2 3 by blast
qed


lemmas eval_defs = rigScene_def rig_body_def rig_constraint_def createCollider_def Let_def addBody_def
  normalize_type_def normalize_mask_def TypeAsString_def type_eq_def nullish_one_def
  no_userData_def object_at_def empty_rigger_def newRigger_def translation_lib_def
  getWorldPosition_def getWorldQuaternion_def getBodyByName_def createSyncBetween_def
  createCustomConstraint_def registerCustomConstraint_def getCustomConstraint_def

theorem custom_constraint_dispatch_witness:
  "pass1 translation_lib custom_rigger (traverse custom_scene) =
     (custom_rigger,
      [] @ Object3D (object_at 0 (no_userData\<lparr>name := Some ''N'',
                                          threejscannones_type := Some (TNum 10),
                                          threejscannones_customId := Some ''foo''\<rparr>) (Vec3 0 0 0)) [] # [])
   \<and> pass2 translation_lib custom_rigger [] = Inr custom_rigger
   \<and> (\<exists>s2. rigScene translation_lib custom_rigger custom_scene = Inr s2
          \<and> getCustomConstraint s2 ''N'' = Some (HostObject 7))"
proof -
  let ?ob = "Object3D (object_at 0 (no_userData\<lparr>name := Some ''N'',
                                          threejscannones_type := Some (TNum 10),
                                          threejscannones_customId := Some ''foo''\<rparr>) (Vec3 0 0 0)) []"
  have p1: "pass1 translation_lib custom_rigger (traverse custom_scene) = (custom_rigger, [] @ ?ob # [])"
    by (simp add: custom_scene_def custom_rigger_def eval_defs)
  have ty: "type_eq (threejscannones_type (userData (data ?ob))) Custom"
    by (simp add: type_eq_def object_at_def no_userData_def)
  have p2: "pass2 translation_lib custom_rigger [] = Inr custom_rigger" by simp
  have id: "threejscannones_customId (userData (data ?ob)) = Some ''foo'' \<and> ''foo'' \<noteq> []
            \<and> customId2ConstraintFactory custom_rigger ''foo'' = Some (\<lambda>cfg. HostObject 7)"
    by (simp add: object_at_def no_userData_def custom_rigger_def registerCustomConstraint_def)
  have nm: "name (userData (data ?ob)) = Some ''N''"
    by (simp add: object_at_def no_userData_def)
  note t = custom_constraint_dispatch [OF p1 ty p2, THEN conjunct2, THEN conjunct2, rule_format,
      of "''foo''" "\<lambda>cfg. HostObject 7", OF id]
  then obtain s1 where s1: "rig_constraint translation_lib custom_rigger ?ob = Inr s1"
    and fin: "\<forall>s2 nm. rigScene translation_lib custom_rigger custom_scene = Inr s2
                        \<and> name (userData (data ?ob)) = Some nm
                        \<and> (\<forall>ob'\<in>set []. \<not> (type_eq (threejscannones_type (userData (data ob'))) Custom
                                               \<and> name (userData (data ob')) = Some nm)) \<longrightarrow>
                        getCustomConstraint s2 nm = Some (HostObject 7)"
    by auto
  have rs: "rigScene translation_lib custom_rigger custom_scene = Inr s1"
    using p1 s1 by (simp add: rigScene_def)
  have "getCustomConstraint s1 ''N'' = Some (HostObject 7)"
    using fin rs nm by simp
  then show ?thesis using p1 p2 rs by blast
qed


lemma rig_constraint_lock:
  assumes "type_eq (threejscannones_type (userData (data ob))) LockConstraint"
  shows "rig_constraint L s ob =
           push_joint (data ob)
             (createLockConstraint s (getBodyByName s (threejscannones_A (userData (data ob))))
                (getBodyByName s (threejscannones_B (userData (data ob)))))"
  using assms by (simp add: rig_constraint_def type_eq_def Let_def)

text \<open>
  Claim C10: \<open>getBodyByName\<close> called with \<open>undefined\<close> does not always answer
  \<open>undefined\<close>.  When a rigged collider node has no \<open>userData.name\<close>, the lookup
  returns the body of the first such node of \<open>obj2bod\<close>.  The second traversal makes
  this call for every absent \<open>A\<close>, \<open>B\<close> or sync-source annotation, so a sync node
  without a source is linked to that body without a warning, and a lock node without
  \<open>A\<close> and \<open>B\<close> gets a joint of that body with itself.
\<close>

theorem undefined_name_finds_unnamed_body:
  assumes "obj2bod s = pre @ (d, r) # post"
      and "\<forall>e\<in>set pre. name (userData (fst e)) \<noteq> None"
      and "name (userData d) = None"
  shows "getBodyByName s None = Some r
     \<and> (type_eq (threejscannones_type (userData (data ob))) SyncLocRot
          \<and> threejscannones_syncSource (userData (data ob)) = None \<longrightarrow>
        rig_constraint L s ob =
          Inr (s\<lparr>constraints := constraints s @
                 [SyncConstraint \<lparr>sync_obj = data ob, sync_body = r, offsetPos = Vec3 0 0 0,
                                  offsetQuat = Quat 0 0 0 1, hasInit = False\<rparr>]\<rparr>))
     \<and> (type_eq (threejscannones_type (userData (data ob))) LockConstraint
          \<and> threejscannones_A (userData (data ob)) = None
          \<and> threejscannones_B (userData (data ob)) = None \<longrightarrow>
        rig_constraint L s ob =
          Inr (s\<lparr>next_ref := Suc (next_ref s),
                 world_constraints := world_constraints s @ [(next_ref s, NewLockConstraint r r)],
                 constraints := constraints s @
                   [ThreeJsCannonEsConstraint (data ob) (next_ref s, NewLockConstraint r r)]\<rparr>))"
proof -
  have g: "getBodyByName s None = Some r"
    using find_body_first [OF assms(2,3)] assms(1) by (simp add: getBodyByName_def)
  have a: "rig_constraint L s ob =
          Inr (s\<lparr>constraints := constraints s @
                 [SyncConstraint \<lparr>sync_obj = data ob, sync_body = r, offsetPos = Vec3 0 0 0,
                                  offsetQuat = Quat 0 0 0 1, hasInit = False\<rparr>]\<rparr>)"
    if "type_eq (threejscannones_type (userData (data ob))) SyncLocRot"
       "threejscannones_syncSource (userData (data ob)) = None"
    using rig_constraint_sync [OF that(1)] that(2) g by (simp add: createSyncBetween_def)
  have b: "rig_constraint L s ob =
          Inr (s\<lparr>next_ref := Suc (next_ref s),
                 world_constraints := world_constraints s @ [(next_ref s, NewLockConstraint r r)],
                 constraints := constraints s @
                   [ThreeJsCannonEsConstraint (data ob) (next_ref s, NewLockConstraint r r)]\<rparr>)"
    if "type_eq (threejscannones_type (userData (data ob))) LockConstraint"
       "threejscannones_A (userData (data ob)) = None"
       "threejscannones_B (userData (data ob)) = None"
    using rig_constraint_lock [OF that(1)] that(2,3) g
    by (simp add: createLockConstraint_def push_joint_def addConstraint_def Let_def)
  show ?thesis using g a b by blast
qed

theorem undefined_name_finds_unnamed_body_witness:
  "obj2bod (fst (pass1 translation_lib empty_rigger (traverse unnamed_scene))) =
     [] @ ((object_at 1 (no_userData\<lparr>threejscannones_type := Some (TNum 1)\<rparr>) (Vec3 0 1 0))
             \<lparr>visible := False\<rparr>, 0) # []
   \<and> getBodyByName (fst (pass1 translation_lib empty_rigger (traverse unnamed_scene))) None = Some 0
   \<and> rig_constraint translation_lib (fst (pass1 translation_lib empty_rigger (traverse unnamed_scene)))
        (Object3D (object_at 2 (no_userData\<lparr>name := Some ''Link'',
                                               threejscannones_type := Some (TNum 8)\<rparr>) (Vec3 5 0 0)) []) =
       Inr ((fst (pass1 translation_lib empty_rigger (traverse unnamed_scene)))
              \<lparr>constraints :=
                 [SyncConstraint
                    \<lparr>sync_obj = object_at 2 (no_userData\<lparr>name := Some ''Link'',
                                               threejscannones_type := Some (TNum 8)\<rparr>) (Vec3 5 0 0),
                     sync_body = 0, offsetPos = Vec3 0 0 0, offsetQuat = Quat 0 0 0 1,
                     hasInit = False\<rparr>]\<rparr>)"
proof -
  let ?S = "fst (pass1 translation_lib empty_rigger (traverse unnamed_scene))"
  let ?D = "(object_at 1 (no_userData\<lparr>threejscannones_type := Some (TNum 1)\<rparr>) (Vec3 0 1 0))
             \<lparr>visible := False\<rparr>"
  let ?ob = "Object3D (object_at 2 (no_userData\<lparr>name := Some ''Link'',
                                               threejscannones_type := Some (TNum 8)\<rparr>) (Vec3 5 0 0)) []"
  have o: "obj2bod ?S = [] @ (?D, 0) # []"
    by (simp add: unnamed_scene_def eval_defs)
  have c: "constraints ?S = []"
    by (simp add: unnamed_scene_def eval_defs)
  have p: "\<forall>e\<in>set []. name (userData (fst e)) \<noteq> None" by simp
  have n: "name (userData ?D) = None" by (simp add: object_at_def no_userData_def)
  have t: "type_eq (threejscannones_type (userData (data ?ob))) SyncLocRot
          \<and> threejscannones_syncSource (userData (data ?ob)) = None"
    by (simp add: type_eq_def object_at_def no_userData_def)
  note u = undefined_name_finds_unnamed_body [OF o p n, of ?ob translation_lib]
  have "getBodyByName ?S None = Some 0" using u by blast
  moreover have "rig_constraint translation_lib ?S ?ob =
          Inr (?S\<lparr>constraints := constraints ?S @
                 [SyncConstraint \<lparr>sync_obj = data ?ob, sync_body = 0, offsetPos = Vec3 0 0 0,
                                  offsetQuat = Quat 0 0 0 1, hasInit = False\<rparr>]\<rparr>)"
    using u t by blast
  ultimately show ?thesis using o c by simp
qed

section \<open>The first traversal\<close>

lemma map_set_mem_self: "(d, r) \<in> set (map_set d r m)"
  by (induction m) auto

lemma map_set_mem_other: "(d, r) \<in> set m \<Longrightarrow> oid d' \<noteq> oid d \<Longrightarrow> (d, r) \<in> set (map_set d' r' m)"
  by (induction m) auto

lemma fold_addShape:
  "shapes (fold (\<lambda>mesh b. case f mesh of (sh, off, ori) \<Rightarrow> addShape sh off ori b) ms b0) =
     shapes b0 @ map f ms"
  by (induction ms arbitrary: b0) (auto simp: addShape_def split: prod.splits)

lemma fold_addShape_other:
  "mass (fold (\<lambda>mesh b. case f mesh of (sh, off, ori) \<Rightarrow> addShape sh off ori b) ms b0) = mass b0"
  "collisionFilterGroup (fold (\<lambda>mesh b. case f mesh of (sh, off, ori) \<Rightarrow> addShape sh off ori b) ms b0) = collisionFilterGroup b0"
  "collisionFilterMask (fold (\<lambda>mesh b. case f mesh of (sh, off, ori) \<Rightarrow> addShape sh off ori b) ms b0) = collisionFilterMask b0"
  by (induction ms arbitrary: b0; auto simp: addShape_def split: prod.splits)+

text \<open>What the callback of the first traversal does to a collider node.\<close>

lemma rig_body_collider:
  assumes "rig_body L s ob = (s1, ob1)"
      and "is_collider (normalize_type (threejscannones_type (userData (data ob))))"
  shows "((normalized (data ob))\<lparr>visible := False\<rparr>, next_ref s) \<in> set (obj2bod s1)"
    and "next_ref s1 = Suc (next_ref s)"
    and "position (heap s1 (next_ref s)) = getWorldPosition L (data ob)"
    and "quaternion (heap s1 (next_ref s)) = getWorldQuaternion L (data ob)"
    and "type_eq (normalize_type (threejscannones_type (userData (data ob)))) BoxCollider \<Longrightarrow>
           shapes (heap s1 (next_ref s)) = [(Box (scale (data ob)), Vec3 0 0 0, Quat 0 0 0 1)]"
    and "type_eq (normalize_type (threejscannones_type (userData (data ob)))) SphereCollider \<Longrightarrow>
           shapes (heap s1 (next_ref s)) = [(Sphere (vx (scale (data ob))), Vec3 0 0 0, Quat 0 0 0 1)]"
    and "type_eq (normalize_type (threejscannones_type (userData (data ob)))) CompoundCollider \<Longrightarrow>
           shapes (heap s1 (next_ref s)) =
             map (\<lambda>c. compound_shape L (getWorldPosition L (data ob))
                         (qinvert (getWorldQuaternion L (data ob))) (data c)) (children ob)"
  using assms
  by (auto simp: rig_body_def is_collider_def Let_def createCollider_def addCompoundShapes_def
      addBody_def type_eq_def map_set_mem_self fold_addShape getWorldPosition_def
      getWorldQuaternion_def normalized_def
      split: if_splits prod.splits)

lemma rig_body_preserve:
  assumes "rig_body L s ob = (s1, ob1)" and "r < next_ref s"
  shows "heap s1 r = heap s r" and "next_ref s \<le> next_ref s1"
    and "(d, r) \<in> set (obj2bod s) \<Longrightarrow> oid (data ob) \<noteq> oid d \<Longrightarrow> (d, r) \<in> set (obj2bod s1)"
  using assms
  by (auto simp: rig_body_def Let_def createCollider_def addCompoundShapes_def
      addBody_def map_set_mem_other
      split: if_splits prod.splits)

lemma oid_normalized [simp]: "oid ((normalized d)\<lparr>visible := v\<rparr>) = oid d"
  by (simp add: normalized_def)

lemma pass1_preserve:
  assumes "pass1 L s obs = (s1, obs1)" and "r < next_ref s"
  shows "heap s1 r = heap s r \<and> next_ref s \<le> next_ref s1
         \<and> ((d, r) \<in> set (obj2bod s) \<and> oid d \<notin> (\<lambda>ob. oid (data ob)) ` set obs
              \<longrightarrow> (d, r) \<in> set (obj2bod s1))"
  using assms
proof (induction obs arbitrary: s s1 obs1)
  case Nil
  then show ?case by simp
next
  case (Cons ob obs)
  obtain sa oa where a: "rig_body L s ob = (sa, oa)" by (cases "rig_body L s ob") auto
  obtain sb obs' where b: "pass1 L sa obs = (sb, obs')" by (cases "pass1 L sa obs") auto
  have e: "s1 = sb" using Cons.prems(1) a b by simp
  note p = rig_body_preserve [OF a Cons.prems(2)]
  have r: "r < next_ref sa" using p(2) Cons.prems(2) by simp
  show ?case
    using Cons.IH [OF b r] p e by auto
qed

lemma pass1_collider:
  assumes "pass1 L s obs = (s1, obs1)"
      and "distinct (map (\<lambda>ob. oid (data ob)) obs)"
      and "ob \<in> set obs"
      and "is_collider (normalize_type (threejscannones_type (userData (data ob))))"
  shows "\<exists>s0 sa oa. rig_body L s0 ob = (sa, oa)
           \<and> ((normalized (data ob))\<lparr>visible := False\<rparr>, next_ref s0) \<in> set (obj2bod s1)
           \<and> heap s1 (next_ref s0) = heap sa (next_ref s0)"
  using assms
proof (induction obs arbitrary: s s1 obs1)
  case Nil
  then show ?case by simp
next
  case (Cons x obs)
  obtain sa oa where a: "rig_body L s x = (sa, oa)" by (cases "rig_body L s x") auto
  obtain sb obs' where b: "pass1 L sa obs = (sb, obs')" by (cases "pass1 L sa obs") auto
  have e: "s1 = sb" using Cons.prems(1) a b by simp
  show ?case
  proof (cases "ob = x")
    case True
    note c = rig_body_collider [OF a [folded True] Cons.prems(4)]
    have lt: "next_ref s < next_ref sa" using c(2) by simp
    have "oid ((normalized (data ob))\<lparr>visible := False\<rparr>) \<notin> (\<lambda>ob. oid (data ob)) ` set obs"
      using Cons.prems(2) True by auto
    then have "heap sb (next_ref s) = heap sa (next_ref s)
         \<and> ((normalized (data ob))\<lparr>visible := False\<rparr>, next_ref s) \<in> set (obj2bod sb)"
      using pass1_preserve [OF b lt, of "(normalized (data ob))\<lparr>visible := False\<rparr>"] c(1) by blast
    then show ?thesis using a True e by blast
  next
    case False
    then have "ob \<in> set obs" using Cons.prems(3) by simp
    moreover have "distinct (map (\<lambda>ob. oid (data ob)) obs)" using Cons.prems(2) by simp
    ultimately show ?thesis using Cons.IH [OF b _ _ Cons.prems(4)] e by blast
  qed
qed

text \<open>
  Claim C2: for every node of the scene tagged as a box, sphere or compound collider, the
  body registered for it at the end of the first traversal has the world position and the
  world orientation of the node, as three.js computes them from the world matrix of the
  node.  The scale of the node goes into the shape only: the half extents of the box, the
  radius of the sphere.  Distinct identities say that the nodes are distinct objects.
\<close>

theorem collider_pose_is_world_pose:
  assumes "pass1 L s (traverse scene) = (s1, obs1)"
      and "distinct (map (\<lambda>ob. oid (data ob)) (traverse scene))"
      and "ob \<in> set (traverse scene)"
      and "is_collider (normalize_type (threejscannones_type (userData (data ob))))"
  shows "\<exists>d r. (d, r) \<in> set (obj2bod s1) \<and> oid d = oid (data ob)
           \<and> position (heap s1 r) = getWorldPosition L (data ob)
           \<and> quaternion (heap s1 r) = getWorldQuaternion L (data ob)
           \<and> (type_eq (normalize_type (threejscannones_type (userData (data ob)))) BoxCollider \<longrightarrow>
                shapes (heap s1 r) = [(Box (scale (data ob)), Vec3 0 0 0, Quat 0 0 0 1)])
           \<and> (type_eq (normalize_type (threejscannones_type (userData (data ob)))) SphereCollider \<longrightarrow>
                shapes (heap s1 r) = [(Sphere (vx (scale (data ob))), Vec3 0 0 0, Quat 0 0 0 1)])"
proof -
  obtain s0 sa oa where a: "rig_body L s0 ob = (sa, oa)"
    and m: "((normalized (data ob))\<lparr>visible := False\<rparr>, next_ref s0) \<in> set (obj2bod s1)"
    and h: "heap s1 (next_ref s0) = heap sa (next_ref s0)"
    using pass1_collider [OF assms] by blast
  note c = rig_body_collider [OF a assms(4)]
  show ?thesis
    using m h c(3,4,5,6) oid_normalized by (intro exI [of _ "(normalized (data ob))\<lparr>visible := False\<rparr>"] exI [of _ "next_ref s0"]) simp
qed










theorem collider_pose_is_world_pose_witness:
  "distinct (map (\<lambda>ob. oid (data ob)) (traverse unnamed_scene))
   \<and> Object3D (object_at 1 (no_userData\<lparr>threejscannones_type := Some (TStr ''box'')\<rparr>) (Vec3 0 1 0)) []
       \<in> set (traverse unnamed_scene)
   \<and> (\<exists>d r. (d, r) \<in> set (obj2bod (fst (pass1 translation_lib empty_rigger (traverse unnamed_scene))))
          \<and> oid d = 1
          \<and> position (heap (fst (pass1 translation_lib empty_rigger (traverse unnamed_scene))) r) = Vec3 0 1 0
          \<and> quaternion (heap (fst (pass1 translation_lib empty_rigger (traverse unnamed_scene))) r) = Quat 0 0 0 1)"
proof -
  let ?ob = "Object3D (object_at 1 (no_userData\<lparr>threejscannones_type := Some (TStr ''box'')\<rparr>) (Vec3 0 1 0)) []"
  have d: "distinct (map (\<lambda>ob. oid (data ob)) (traverse unnamed_scene))"
    by (simp add: unnamed_scene_def object_at_def)
  have m: "?ob \<in> set (traverse unnamed_scene)"
    by (simp add: unnamed_scene_def)
  have c: "is_collider (normalize_type (threejscannones_type (userData (data ?ob))))"
    by (simp add: is_collider_def type_eq_def normalize_type_def TypeAsString_def object_at_def no_userData_def)
  have g: "getWorldPosition translation_lib (data ?ob) = Vec3 0 1 0"
          "getWorldQuaternion translation_lib (data ?ob) = Quat 0 0 0 1"
          "oid (data ?ob) = 1"
    by (simp_all add: getWorldPosition_def getWorldQuaternion_def translation_lib_def object_at_def)
  from collider_pose_is_world_pose [OF prod.collapse [symmetric] d m c, of translation_lib empty_rigger]
  show ?thesis using d m unfolding g by blast
qed


lemma rig_body_filter:
  assumes "rig_body L s ob = (s1, ob1)"
      and "is_collider (normalize_type (threejscannones_type (userData (data ob))))"
  shows "collisionFilterGroup (heap s1 (next_ref s)) =
           nullish_one (normalize_mask (threejscannones_cgroup (userData (data ob)))
                                       (threejscannones_cgroup_array (userData (data ob))))"
    and "collisionFilterMask (heap s1 (next_ref s)) =
           nullish_one (normalize_mask (threejscannones_cwith (userData (data ob)))
                                       (threejscannones_cwith_array (userData (data ob))))"
  using assms
  by (auto simp: rig_body_def is_collider_def Let_def createCollider_def addCompoundShapes_def
      addBody_def type_eq_def fold_addShape_other
      split: if_splits prod.splits)

text \<open>
  Claim C5, as the specification states it: a list of selected bit indices resolves to the
  OR of \<open>1 << index\<close>, and the callers default a resolved 0 to 1.  On the list \<open>[3]\<close> the
  code returns 3 where the OR of \<open>1 << 3\<close> is 8, and a box collider whose group annotation
  is the empty list gets the collision group 0.
\<close>

theorem index_list_and_zero_default_fail:
  "arrayToBitmask (MArr [3]) None \<noteq> sint (spec_index_bitmask [3])
   \<and> collisionFilterGroup
        (heap (fst (rig_body translation_lib empty_rigger
                      (Object3D (object_at 0
                                   (no_userData\<lparr>threejscannones_type := Some (TStr ''box''),
                                                threejscannones_cgroup := Some (MArr [])\<rparr>)
                                   (Vec3 0 0 0)) []))) 0) \<noteq> MNum 1"
  by (simp add: arrayToBitmask_def spec_index_bitmask_def rig_body_def createCollider_def
      Let_def addBody_def normalize_type_def normalize_mask_def TypeAsString_def type_eq_def
      nullish_one_def no_userData_def object_at_def empty_rigger_def newRigger_def)

text \<open>
  Claim C5, amended: a list annotation is read as flags by position.  The resolved bitmask
  is the OR of \<open>flag << position\<close> over the positions of the list (the shift count taken
  modulo 32), which for at most 32 flags that are 0 or 1 is the OR of \<open>1 << position\<close> over
  the positions that hold 1.  The empty list resolves to 0, and so does a number without a
  companion array.  The body of a collider node gets the normalised group and mask, and 1
  only for an absent annotation: a resolved 0 stays 0.
\<close>

theorem bitmask_resolution_and_defaults:
  "(\<forall>i. bit (word_of_int (arrayToBitmask (MArr fl) arr) :: 32 word) i \<longleftrightarrow>
         (\<exists>j<length fl. bit (push_bit (j mod 32) (word_of_int (fl ! j) :: 32 word)) i))
   \<and> (length fl \<le> 32 \<and> set fl \<subseteq> {0, 1} \<longrightarrow>
        (\<forall>i. bit (word_of_int (arrayToBitmask (MArr fl) arr) :: 32 word) i \<longleftrightarrow>
              (i < length fl \<and> fl ! i = 1)))
   \<and> arrayToBitmask (MArr []) arr = 0
   \<and> arrayToBitmask (MNum n) None = 0
   \<and> normalize_mask None arr = None
   \<and> normalize_mask (Some (MArr [])) arr = Some (MNum 0)
   \<and> (is_collider (normalize_type (threejscannones_type (userData (data ob)))) \<longrightarrow>
        collisionFilterGroup (heap (fst (rig_body L s ob)) (next_ref s)) =
          (case normalize_mask (threejscannones_cgroup (userData (data ob)))
                               (threejscannones_cgroup_array (userData (data ob))) of
             None \<Rightarrow> MNum 1 | Some v \<Rightarrow> v)
        \<and> collisionFilterMask (heap (fst (rig_body L s ob)) (next_ref s)) =
          (case normalize_mask (threejscannones_cwith (userData (data ob)))
                               (threejscannones_cwith_array (userData (data ob))) of
             None \<Rightarrow> MNum 1 | Some v \<Rightarrow> v))"
proof -
  have a: "\<forall>i. bit (word_of_int (arrayToBitmask (MArr fl) arr) :: 32 word) i \<longleftrightarrow>
         (\<exists>j<length fl. bit (push_bit (j mod 32) (word_of_int (fl ! j) :: 32 word)) i)"
    unfolding arrayToBitmask_word reduce_flags_bit by simp
  have b: "length fl \<le> 32 \<and> set fl \<subseteq> {0, 1} \<longrightarrow>
        (\<forall>i. bit (word_of_int (arrayToBitmask (MArr fl) arr) :: 32 word) i \<longleftrightarrow>
              (i < length fl \<and> fl ! i = 1))"
    using bitmask_of_flags by blast
  have c: "arrayToBitmask (MArr []) arr = 0" "arrayToBitmask (MNum n) None = 0"
    by (simp_all add: arrayToBitmask_def)
  have d: "normalize_mask None arr = None" "normalize_mask (Some (MArr [])) arr = Some (MNum 0)"
    by (simp_all add: normalize_mask_def arrayToBitmask_def)
  have e: "collisionFilterGroup (heap (fst (rig_body L s ob)) (next_ref s)) =
          (case normalize_mask (threejscannones_cgroup (userData (data ob)))
                               (threejscannones_cgroup_array (userData (data ob))) of
             None \<Rightarrow> MNum 1 | Some v \<Rightarrow> v)
        \<and> collisionFilterMask (heap (fst (rig_body L s ob)) (next_ref s)) =
          (case normalize_mask (threejscannones_cwith (userData (data ob)))
                               (threejscannones_cwith_array (userData (data ob))) of
             None \<Rightarrow> MNum 1 | Some v \<Rightarrow> v)"
    if "is_collider (normalize_type (threejscannones_type (userData (data ob))))"
    using rig_body_filter [OF prod.collapse [symmetric] that, of L s] by (simp add: nullish_one_def)
  show ?thesis using a b c d e by blast
qed

theorem bitmask_resolution_witness:
  "length [1, 0, 1 :: int] \<le> 32 \<and> set [1, 0, 1 :: int] \<subseteq> {0, 1}
   \<and> bit (word_of_int (arrayToBitmask (MArr [1, 0, 1]) None) :: 32 word) 2
   \<and> \<not> bit (word_of_int (arrayToBitmask (MArr [1, 0, 1]) None) :: 32 word) 1
   \<and> is_collider (normalize_type (Some (TStr ''box'')))
   \<and> collisionFilterGroup
        (heap (fst (rig_body translation_lib empty_rigger
                      (Object3D (object_at 0
                                   (no_userData\<lparr>threejscannones_type := Some (TStr ''box''),
                                                threejscannones_cgroup := Some (MArr [1, 0, 1])\<rparr>)
                                   (Vec3 0 0 0)) []))) 0) = MNum 5"
proof -
  let ?ob = "Object3D (object_at 0 (no_userData\<lparr>threejscannones_type := Some (TStr ''box''),
                                                threejscannones_cgroup := Some (MArr [1, 0, 1])\<rparr>)
                                   (Vec3 0 0 0)) []"
  have h: "length [1, 0, 1 :: int] \<le> 32 \<and> set [1, 0, 1 :: int] \<subseteq> {0, 1}"
    by simp
  note t = bitmask_resolution_and_defaults [of "[1, 0, 1]" None 0 ?ob translation_lib empty_rigger]
  from t h
  have all: "\<forall>i. bit (word_of_int (arrayToBitmask (MArr [1, 0, 1]) None) :: 32 word) i \<longleftrightarrow>
              (i < length [1, 0, 1 :: int] \<and> [1, 0, 1 :: int] ! i = 1)"
    by blast
  have b2: "bit (word_of_int (arrayToBitmask (MArr [1, 0, 1]) None) :: 32 word) 2"
    using all [rule_format, of 2] by (simp add: numeral_2_eq_2)
  have b1: "\<not> bit (word_of_int (arrayToBitmask (MArr [1, 0, 1]) None) :: 32 word) 1"
    using all [rule_format, of 1] by simp
  have c: "is_collider (normalize_type (Some (TStr ''box'')))"
    by (simp add: is_collider_def type_eq_def normalize_type_def TypeAsString_def)
  have ty: "threejscannones_type (userData (data ?ob)) = Some (TStr ''box'')"
           "threejscannones_cgroup (userData (data ?ob)) = Some (MArr [1, 0, 1])"
           "threejscannones_cgroup_array (userData (data ?ob)) = None"
           "next_ref empty_rigger = 0"
    by (simp_all add: object_at_def no_userData_def empty_rigger_def newRigger_def)
  have "collisionFilterGroup (heap (fst (rig_body translation_lib empty_rigger ?ob)) (next_ref empty_rigger)) =
          (case normalize_mask (threejscannones_cgroup (userData (data ?ob)))
                               (threejscannones_cgroup_array (userData (data ?ob))) of
             None \<Rightarrow> MNum 1 | Some v \<Rightarrow> v)"
    using t c unfolding ty(1) by blast
  then have g: "collisionFilterGroup (heap (fst (rig_body translation_lib empty_rigger ?ob)) 0) = MNum 5"
    unfolding ty by (simp add: normalize_mask_def arrayToBitmask_def)
  show ?thesis using h b2 b1 c g by blast
qed

section \<open>The sync link\<close>








section \<open>Teardown and cables\<close>

lemma sqrt_squares: "sqrt 9 = 3" "sqrt 16 = 4" "sqrt 25 = 5"
  by (rule real_sqrt_unique; simp)+

lemma fold_removeConstraint_frame: "world_only s (fold removeConstraint cs s)"
  by (induction cs arbitrary: s) (auto intro: world_only_refl world_only_trans world_only_prims)

lemma fold_removeBody_frame: "world_only s (fold removeBody bs s)"
  by (induction bs arbitrary: s) (auto intro: world_only_refl world_only_trans world_only_prims)

lemma removeFromPhysicalWorld_frame: "world_only s (removeFromPhysicalWorld t s)"
  unfolding removeFromPhysicalWorld_def
  by (rule world_only_trans [OF fold_removeConstraint_frame fold_removeBody_frame])

lemma removeFrom_frame: "world_only s (removeFrom c s)"
proof (cases c)
  case (ThreeJsCannonEsConstraint d cc)
  then show ?thesis by (simp add: removeFrom_def world_only_prims)
next
  case (SyncConstraint sc)
  then show ?thesis by (simp add: removeFrom_def world_only_refl)
next
  case (CableConstraint cb)
  let ?s1 = "case lockToA cb of Some l \<Rightarrow> removeConstraint l s | None \<Rightarrow> s"
  let ?s2 = "case lockToB cb of Some l \<Rightarrow> removeConstraint l ?s1 | None \<Rightarrow> ?s1"
  have 1: "world_only s ?s1"
    by (cases "lockToA cb") (simp_all add: world_only_refl world_only_prims)
  have 2: "world_only ?s1 ?s2"
    by (cases "lockToB cb") (simp_all add: world_only_refl world_only_prims)
  have 3: "world_only ?s2 (removeFromPhysicalWorld (cable cb) ?s2)"
    by (rule removeFromPhysicalWorld_frame)
  have "removeFrom c s = removeFromPhysicalWorld (cable cb) ?s2"
    by (simp add: CableConstraint removeFrom_def Let_def)
  then show ?thesis
    using world_only_trans [OF world_only_trans [OF 1 2] 3] by simp
qed

lemma fold_removeFrom_frame: "world_only s (fold removeFrom cs s)"
  by (induction cs arbitrary: s) (auto intro: world_only_refl world_only_trans removeFrom_frame)

lemma fold_removeBody_entries_frame:
  "customConstraints (fold (\<lambda>e. removeBody (snd e)) es s) = customConstraints s"
  by (induction es arbitrary: s) (auto simp: removeBody_def)

lemma clear_customConstraints: "customConstraints (clear s) = customConstraints s"
proof -
  let ?s1 = "s\<lparr>vec := Vec3 0 0 0, vec2 := Vec3 0 0 0, rot := Quat 0 0 0 0, rot2 := Quat 0 0 0 0\<rparr>"
  have "customConstraints (fold removeFrom (rev (constraints ?s1)) ?s1) = customConstraints ?s1"
    using fold_removeFrom_frame [of ?s1 "rev (constraints ?s1)"] by (simp add: world_only_def)
  then show ?thesis
    by (simp add: clear_def Let_def fold_removeBody_entries_frame)
qed

text \<open>
  Claim C1 says that every constraint made during \<open>rigScene\<close> is on the constraint list
  and that \<open>clear\<close> empties all internal indices.  The code breaks it for custom
  constraints: \<open>clear\<close> never changes \<open>customConstraints\<close>, and on the scene of one
  custom node the constraint list stays empty while the value of the factory is stored,
  and is still returned by \<open>getCustomConstraint\<close> after \<open>clear\<close>.
\<close>

theorem clear_keeps_custom_constraint:
  "customConstraints (clear s) = customConstraints s
   \<and> (case rigScene translation_lib custom_rigger custom_scene of
         Inr s1 \<Rightarrow>
           constraints s1 = []
           \<and> customConstraints s1 (Some ''N'') = Some (HostObject 7)
           \<and> getCustomConstraint (clear s1) ''N'' = Some (HostObject 7)
       | Inl e \<Rightarrow> False)"
proof -
  have r: "rigScene translation_lib custom_rigger custom_scene =
             Inr (custom_rigger\<lparr>customConstraints := (customConstraints custom_rigger)(Some ''N'' \<mapsto> HostObject 7)\<rparr>)"
    by (simp add: custom_scene_def custom_rigger_def eval_defs)
  show ?thesis
    unfolding r
    by (simp add: clear_customConstraints getCustomConstraint_def custom_rigger_def
        registerCustomConstraint_def empty_rigger_def newRigger_def)
qed

lemmas cable_defs = createCable_def addToPhysicalWorld_def newCableConstraint_def localToWorld_def
  distanceTo_def vadd_def addConstraint_def newBody_def

text \<open>
  Claim C9 says that every cable rig is oriented toward the world position of the second
  child and has the distance of the two children as its length, also when a scene has
  several cable nodes.  The code breaks it for the second cable of a scene:
  \<open>localToWorld(vec2)\<close> transforms what the first cable left in the scratch vector.  In
  the scene of two cables the second rig looks at (3, 4, 0) and has length 5, where its
  second child is at (0, 4, 0), at distance 4 from the first.
\<close>

theorem second_cable_reads_stale_scratch_vector:
  "(case rigScene translation_lib empty_rigger two_cables_scene of
      Inr s \<Rightarrow>
        (case constraints s of
           [CableConstraint c1, CableConstraint c2] \<Rightarrow>
             tube_position (cable c1) = Vec3 0 0 0
             \<and> tube_lookAt (cable c1) = Some (Vec3 3 0 0)
             \<and> tube_length (cable c1) = 3
             \<and> tube_position (cable c2) = Vec3 0 0 0
             \<and> tube_lookAt (cable c2) = Some (Vec3 3 4 0)
             \<and> tube_length (cable c2) = 5
         | _ \<Rightarrow> False)
    | Inl e \<Rightarrow> False)
   \<and> getWorldPosition translation_lib (object_at 6 no_userData (Vec3 0 4 0)) = Vec3 0 4 0
   \<and> distanceTo (getWorldPosition translation_lib (object_at 5 no_userData (Vec3 0 0 0)))
                 (getWorldPosition translation_lib (object_at 6 no_userData (Vec3 0 4 0))) = 4"
  by (simp add: two_cables_scene_def eval_defs cable_defs sqrt_squares)

end
